theory Spec2Isabelle
  imports Main "HOL-Library.AList"
begin

section \<open>Strings\<close>

text \<open>
  Go strings are byte sequences; \<open>strings.ToLower\<close> and the regular expression
  \<open>[^a-z0-9]\<close> work on the runes they encode. On ASCII text a rune is a byte, and that
  is the range this development covers: chart names, versions and identifiers are ASCII.
  A theorem that speaks of the two functions on arbitrary text carries the hypothesis
  \<open>ascii\<close> where its truth for the program depends on it.
\<close>

definition ascii :: "string \<Rightarrow> bool" where
  "ascii s = list_all (\<lambda>c. (of_char c :: nat) < 128) s"

text \<open>\<open>strings.ToLower\<close>, on ASCII: the letters \<open>A\<close> to \<open>Z\<close> move to \<open>a\<close> to \<open>z\<close>.\<close>

definition toLowerChar :: "char \<Rightarrow> char" where
  "toLowerChar c =
     (let n = (of_char c :: nat) in if 65 \<le> n \<and> n \<le> 90 then char_of (n + 32) else c)"

definition ToLower :: "string \<Rightarrow> string" where
  "ToLower s = map toLowerChar s"

text \<open>The character class \<open>[a-z0-9]\<close> of the plan-ID cleaner.\<close>

definition lowerAlnum :: "char \<Rightarrow> bool" where
  "lowerAlnum c =
     (let n = (of_char c :: nat) in (97 \<le> n \<and> n \<le> 122) \<or> (48 \<le> n \<and> n \<le> 57))"

text \<open>
  \<open>cleaner := regexp.MustCompile(`[^a-z0-9]`)\<close> and \<open>cleaner.ReplaceAllString(s, "-")\<close>:
  every character outside the class becomes one \<open>-\<close>.
\<close>

definition cleanChar :: "char \<Rightarrow> char" where
  "cleanChar c = (if lowerAlnum c then c else CHR ''-'')"

definition cleaner_ReplaceAllString :: "string \<Rightarrow> string" where
  "cleaner_ReplaceAllString s = map cleanChar s"

text \<open>
  \<open>strings.Replace(s, old, new, n)\<close>: the first \<open>n\<close> non-overlapping occurrences of
  \<open>old\<close>, from the left, become \<open>new\<close>; a negative \<open>n\<close> means all of them. The count
  of replacements still allowed is \<open>None\<close> for no limit. With an empty \<open>old\<close> the
  library matches before every character and at the end.
\<close>

fun spent :: "nat option \<Rightarrow> bool" where
  "spent None = False"
| "spent (Some k) = (k = 0)"

fun less1 :: "nat option \<Rightarrow> nat option" where
  "less1 None = None"
| "less1 (Some k) = Some (k - 1)"

fun replaceEmpty :: "string \<Rightarrow> nat option \<Rightarrow> string \<Rightarrow> string" where
  "replaceEmpty new k [] = (if spent k then [] else new)"
| "replaceEmpty new k (c # cs) =
     (if spent k then c # cs else new @ c # replaceEmpty new (less1 k) cs)"

function replaceFrom :: "string \<Rightarrow> string \<Rightarrow> nat option \<Rightarrow> string \<Rightarrow> string" where
  "replaceFrom old new k s =
     (if spent k \<or> s = [] \<or> old = [] then s
      else if take (length old) s = old
           then new @ replaceFrom old new (less1 k) (drop (length old) s)
           else hd s # replaceFrom old new k (tl s))"
  by pat_completeness auto
termination
  by (relation "measure (\<lambda>(old, new, k, s). length s)") auto

declare replaceFrom.simps [simp del]

definition strings_Replace :: "string \<Rightarrow> string \<Rightarrow> string \<Rightarrow> int \<Rightarrow> string" where
  "strings_Replace s old new n =
     (let k = (if n < 0 then None else Some (nat n)) in
      if old = new \<or> n = 0 then s
      else if old = [] then replaceEmpty new k s
      else replaceFrom old new k s)"

section \<open>Catalog Builder\<close>

text \<open>
  \<open>repo.ChartVersion\<close> of the package repository, with the fields of its metadata that
  the broker reads.
\<close>

record chartVersion =
  Name :: string
  Version :: string
  AppVersion :: string
  Description :: string
  Keywords :: "string list"

text \<open>\<open>osb.Plan\<close> and \<open>osb.Service\<close>, with the fields the broker fills.\<close>

record plan =
  plan_ID :: string
  plan_Name :: string
  plan_Description :: string
  plan_Free :: "bool option"

record service_entry =
  svc_ID :: string
  svc_Name :: string
  svc_Description :: string
  svc_Bindable :: bool
  svc_Plans :: "plan list"
  svc_Tags :: "string list"

fun hasTag :: "string \<Rightarrow> string list \<Rightarrow> bool" where
  "hasTag tag [] = False"
| "hasTag tag (listTag # list) = (if listTag = tag then True else hasTag tag list)"

text \<open>The inner loop of \<open>Search\<close>: is the tag in every other keyword list?\<close>

fun inAllOthers :: "string \<Rightarrow> string list list \<Rightarrow> bool" where
  "inAllOthers searchTag [] = True"
| "inAllOthers searchTag (other # others) =
     (if \<not> hasTag searchTag other then False else inAllOthers searchTag others)"

text \<open>The outer loop of \<open>Search\<close>, appending to \<open>intersection\<close>.\<close>

fun searchTags :: "string list \<Rightarrow> string list list \<Rightarrow> string list \<Rightarrow> string list" where
  "searchTags [] others intersection = intersection"
| "searchTags (searchTag # rest) others intersection =
     (if inAllOthers searchTag others
      then searchTags rest others (intersection @ [searchTag])
      else searchTags rest others intersection)"

definition getTagIntersection :: "chartVersion list \<Rightarrow> string list" where
  "getTagIntersection chartVersions =
     (let tagList = map Keywords chartVersions in
      case tagList of
        [] \<Rightarrow> []
      | [only] \<Rightarrow> only
      | first # others \<Rightarrow> searchTags first others [])"

section \<open>Values and errors\<close>

text \<open>
  Values of type \<open>interface{}\<close> in parameter and credential maps are JSON values. The
  broker never computes with a number, so its representation does not matter here.
\<close>

datatype jvalue =
    JNull | JBool bool | JNumber int | JString string
  | JArray "jvalue list" | JObject "(string \<times> jvalue) list"

text \<open>
  \<open>apierrors\<close> classifies an error of the cluster API client by its status reason;
  \<open>Unavailable\<close> stands for every reason other than the two the broker tests for.
\<close>

datatype reason = AlreadyExists | NotFound | Unavailable

text \<open>
  The error values of the broker: \<open>osb.HTTPStatusCodeError\<close> with its status code, error
  message and description; an error of the cluster API client; an error of another
  collaborator (repository client, installer, JSON and YAML encoders, providers), named
  by a label; \<open>errors.Wrapf\<close> around an error, with the format and its arguments; and a
  Go run-time panic.
\<close>

datatype error =
    HTTPStatusCodeError int "string option" "string option"
  | StatusError reason
  | External string
  | Wrapf error string "jvalue list"
  | Panic string

fun IsAlreadyExists :: "error \<Rightarrow> bool" where
  "IsAlreadyExists (StatusError r) = (r = AlreadyExists)"
| "IsAlreadyExists _ = False"

fun IsNotFound :: "error \<Rightarrow> bool" where
  "IsNotFound (StatusError r) = (r = NotFound)"
| "IsNotFound _ = False"

definition StatusConflict :: int where "StatusConflict = 409"
definition StatusNotFound :: int where "StatusNotFound = 404"
definition StatusGone :: int where "StatusGone = 410"
definition StatusBadRequest :: int where "StatusBadRequest = 400"

definition ConcurrencyErrorMessage :: string where
  "ConcurrencyErrorMessage = ''ConcurrencyError''"

definition ConcurrencyErrorDescription :: string where
  "ConcurrencyErrorDescription = ''Concurrent modification not supported''"

section \<open>The cluster\<close>

text \<open>
  A Go map that the code ranges over is an association list with distinct keys, in the
  order of the iteration (which Go leaves open); a map that is only indexed and assigned
  is a HOL map.
\<close>

type_synonym params = "(string \<times> jvalue) list"

record configMap =
  cm_Name :: string
  cm_Namespace :: string
  cm_Labels :: "string \<rightharpoonup> string"
  cm_Data :: "string \<rightharpoonup> string"

record k8s_service =
  sv_Name :: string
  sv_Namespace :: string
  sv_Labels :: "string \<rightharpoonup> string"

record k8s_secret =
  sc_Name :: string
  sc_Namespace :: string
  sc_Labels :: "string \<rightharpoonup> string"
  sc_Data :: "(string \<times> string) list"

text \<open>The requests the broker sends to the cluster API.\<close>

datatype request =
    ConfigMapCreate | ConfigMapGet | ConfigMapUpdate | ConfigMapDelete
  | ServiceList | ServicePatch | SecretList | SecretPatch

text \<open>
  The state behind \<open>coreClient\<close> and the installer: the config maps (labels and data)
  by namespace and name, the services and secrets, the names of the installed releases, and the requests
  that currently fail for a reason of the transport (\<open>unreachable\<close>), so that every
  error return of the code after a cluster call is a branch of the model.
\<close>

record cluster =
  configMaps :: "(string \<times> string) \<rightharpoonup> (string \<rightharpoonup> string) \<times> (string \<rightharpoonup> string)"
  serviceObjects :: "k8s_service list"
  secretObjects :: "k8s_secret list"
  releases :: "string list"
  unreachable :: "request set"

text \<open>
  Modelled from the spec: the cluster API client is an external collaborator (section 6
  of the specification: get, create, update and delete of a namespaced key/value record
  by name; list-by-label and patch of namespaced service and secret objects). Each
  request returns its answer and the cluster after it. A create of a name that exists
  answers \<open>AlreadyExists\<close>; get, update, delete and patch of a name that does not exist
  answer \<open>NotFound\<close>; a request that does not reach the store answers \<open>Unavailable\<close>.
\<close>

definition lookupConfigMap :: "cluster \<Rightarrow> string \<Rightarrow> string \<Rightarrow> configMap option" where
  "lookupConfigMap st ns name =
     (case configMaps st (ns, name) of
        None \<Rightarrow> None
      | Some (labels, data) \<Rightarrow>
          Some \<lparr>cm_Name = name, cm_Namespace = ns, cm_Labels = labels, cm_Data = data\<rparr>)"

definition storeConfigMap :: "string \<Rightarrow> configMap \<Rightarrow> cluster \<Rightarrow> cluster" where
  "storeConfigMap ns config st =
     st\<lparr>configMaps := (configMaps st)((ns, cm_Name config) \<mapsto> (cm_Labels config, cm_Data config))\<rparr>"

definition ConfigMaps_Create ::
  "string \<Rightarrow> configMap \<Rightarrow> cluster \<Rightarrow> (error + configMap) \<times> cluster" where
  "ConfigMaps_Create ns config st =
     (if ConfigMapCreate \<in> unreachable st then (Inl (StatusError Unavailable), st)
      else case lookupConfigMap st ns (cm_Name config) of
             Some _ \<Rightarrow> (Inl (StatusError AlreadyExists), st)
           | None \<Rightarrow> (Inr config, storeConfigMap ns config st))"

definition ConfigMaps_Get ::
  "string \<Rightarrow> string \<Rightarrow> cluster \<Rightarrow> (error + configMap) \<times> cluster" where
  "ConfigMaps_Get ns name st =
     (if ConfigMapGet \<in> unreachable st then (Inl (StatusError Unavailable), st)
      else case lookupConfigMap st ns name of
             None \<Rightarrow> (Inl (StatusError NotFound), st)
           | Some config \<Rightarrow> (Inr config, st))"

definition ConfigMaps_Update ::
  "string \<Rightarrow> configMap \<Rightarrow> cluster \<Rightarrow> (error + configMap) \<times> cluster" where
  "ConfigMaps_Update ns config st =
     (if ConfigMapUpdate \<in> unreachable st then (Inl (StatusError Unavailable), st)
      else case lookupConfigMap st ns (cm_Name config) of
             None \<Rightarrow> (Inl (StatusError NotFound), st)
           | Some _ \<Rightarrow> (Inr config, storeConfigMap ns config st))"

definition ConfigMaps_Delete ::
  "string \<Rightarrow> string \<Rightarrow> cluster \<Rightarrow> error option \<times> cluster" where
  "ConfigMaps_Delete ns name st =
     (if ConfigMapDelete \<in> unreachable st then (Some (StatusError Unavailable), st)
      else case lookupConfigMap st ns name of
             None \<Rightarrow> (Some (StatusError NotFound), st)
           | Some _ \<Rightarrow> (None, st\<lparr>configMaps := (configMaps st)((ns, name) := None)\<rparr>))"

text \<open>
  \<open>labels.SelectorFromSet\<close>: an object matches when it carries every label of the set.
  A list in the namespace \<open>""\<close> is a list over all namespaces.
\<close>

definition matchesSelector :: "(string \<times> string) list \<Rightarrow> (string \<rightharpoonup> string) \<Rightarrow> bool" where
  "matchesSelector selector labels = list_all (\<lambda>(k, v). labels k = Some v) selector"

definition inNamespace :: "string \<Rightarrow> string \<Rightarrow> bool" where
  "inNamespace ns objectNamespace = (ns = [] \<or> objectNamespace = ns)"

definition Services_List ::
  "string \<Rightarrow> (string \<times> string) list \<Rightarrow> cluster \<Rightarrow> (error + k8s_service list) \<times> cluster" where
  "Services_List ns selector st =
     (if ServiceList \<in> unreachable st then (Inl (StatusError Unavailable), st)
      else (Inr (filter (\<lambda>s. inNamespace ns (sv_Namespace s) \<and>
                               matchesSelector selector (sv_Labels s)) (serviceObjects st)), st))"

definition Secrets_List ::
  "string \<Rightarrow> (string \<times> string) list \<Rightarrow> cluster \<Rightarrow> (error + k8s_secret list) \<times> cluster" where
  "Secrets_List ns selector st =
     (if SecretList \<in> unreachable st then (Inl (StatusError Unavailable), st)
      else (Inr (filter (\<lambda>s. inNamespace ns (sc_Namespace s) \<and>
                               matchesSelector selector (sc_Labels s)) (secretObjects st)), st))"

text \<open>
  A strategic merge patch that sets labels: the labels of the patch are written over the
  object's, every other field stays.
\<close>

definition setLabels :: "(string \<times> string) list \<Rightarrow> (string \<rightharpoonup> string) \<Rightarrow> (string \<rightharpoonup> string)" where
  "setLabels patch labels = fold (\<lambda>(k, v) m. m(k \<mapsto> v)) patch labels"

definition Services_Patch ::
  "string \<Rightarrow> string \<Rightarrow> (string \<times> string) list \<Rightarrow> cluster \<Rightarrow> error option \<times> cluster" where
  "Services_Patch ns name patch st =
     (if ServicePatch \<in> unreachable st then (Some (StatusError Unavailable), st)
      else if \<not> list_ex (\<lambda>s. sv_Namespace s = ns \<and> sv_Name s = name) (serviceObjects st)
      then (Some (StatusError NotFound), st)
      else (None,
            st\<lparr>serviceObjects :=
                 map (\<lambda>s. if sv_Namespace s = ns \<and> sv_Name s = name
                           then s\<lparr>sv_Labels := setLabels patch (sv_Labels s)\<rparr> else s)
                     (serviceObjects st)\<rparr>))"

definition Secrets_Patch ::
  "string \<Rightarrow> string \<Rightarrow> (string \<times> string) list \<Rightarrow> cluster \<Rightarrow> error option \<times> cluster" where
  "Secrets_Patch ns name patch st =
     (if SecretPatch \<in> unreachable st then (Some (StatusError Unavailable), st)
      else if \<not> list_ex (\<lambda>s. sc_Namespace s = ns \<and> sc_Name s = name) (secretObjects st)
      then (Some (StatusError NotFound), st)
      else (None,
            st\<lparr>secretObjects :=
                 map (\<lambda>s. if sc_Namespace s = ns \<and> sc_Name s = name
                           then s\<lparr>sc_Labels := setLabels patch (sc_Labels s)\<rparr> else s)
                     (secretObjects st)\<rparr>))"

section \<open>The client\<close>

text \<open>
  \<open>Provider.Bind(services, params, data)\<close>: the credentials (the map of
  \<open>creds.ToMap()\<close>) or an error. A provider has no access to the cluster.
\<close>

type_synonym provider =
  "k8s_service list \<Rightarrow> (string \<rightharpoonup> jvalue) \<Rightarrow> (string \<rightharpoonup> jvalue) \<Rightarrow> error + params"

text \<open>The release in the installer's response, and the options of an installation.\<close>

record release =
  rel_Name :: string
  rel_Namespace :: string

record installOptions =
  ValueOverrides :: string
  InstallReuseName :: bool
  InstallDisableHooks :: bool
  InstallWait :: bool

record deleteOptions =
  DeleteDisableHooks :: bool
  DeletePurge :: bool

text \<open>
  \<open>Client\<close>: the fields of the Go structure (the repository client \<open>helm\<close> by its two
  calls, \<open>namespace\<close>, \<open>providers\<close>, \<open>serviceCatalogEnabledOnly\<close>; the state behind
  \<open>coreClient\<close> is passed to every operation), followed by the libraries and
  collaborators that are not part of the repository and are taken as parameters: the
  semantic-version library (\<open>'v\<close> is its version type; \<open>NewVersion\<close> answers \<open>None\<close> for
  a string that does not parse), the JSON and YAML encoders, the chart loader (\<open>'c\<close> is
  a loaded chart) and the installer at \<open>localhost:44134\<close>.
\<close>

record ('v, 'c) Client =
  helm_ListCharts :: "error + (string \<times> chartVersion list) list"
  helm_GetChart :: "string \<Rightarrow> string \<Rightarrow> error + chartVersion"
  namespace :: string
  providers :: "string \<rightharpoonup> provider"
  serviceCatalogEnabledOnly :: bool
  semver_NewVersion :: "string \<Rightarrow> 'v option"
  semver_GreaterThan :: "'v \<Rightarrow> 'v \<Rightarrow> bool"
  json_Marshal :: "params \<Rightarrow> error + string"
  json_Unmarshal :: "string \<Rightarrow> error + params"
  yaml_Marshal :: "params \<Rightarrow> error + string"
  LoadChart :: "chartVersion \<Rightarrow> error + 'c"
  PingTiller :: "cluster \<Rightarrow> error option"
  InstallReleaseFromChart ::
    "'c \<Rightarrow> string \<Rightarrow> installOptions \<Rightarrow> cluster \<Rightarrow> (error + release) \<times> cluster"
  DeleteRelease :: "string \<Rightarrow> deleteOptions \<Rightarrow> cluster \<Rightarrow> error option \<times> cluster"

subsection \<open>ListServices\<close>

text \<open>
  The loop over \<open>chartVersions\<close> that fills the map \<open>appVersions\<close>. The map is ranged
  over afterwards, so it is an association list; an assignment to a key replaces the
  entry of the key or adds one. The error of the second \<open>NewVersion\<close> is dropped by the
  code (\<open>maxV, _ :=\<close>); were it to fail, \<open>GreaterThan\<close> would dereference nil.
\<close>

fun appVersionsLoop ::
  "('v, 'c) Client \<Rightarrow> chartVersion list \<Rightarrow> (string \<times> chartVersion) list
     \<Rightarrow> error + (string \<times> chartVersion) list" where
  "appVersionsLoop c [] appVersions = Inr appVersions"
| "appVersionsLoop c (chartVersion # rest) appVersions =
     (if AppVersion chartVersion = [] then appVersionsLoop c rest appVersions
      else case semver_NewVersion c (Version chartVersion) of
        None \<Rightarrow> appVersionsLoop c rest appVersions
      | Some curV \<Rightarrow>
          (case map_of appVersions (AppVersion chartVersion) of
             None \<Rightarrow>
               appVersionsLoop c rest
                 (AList.update (AppVersion chartVersion) chartVersion appVersions)
           | Some currentMax \<Rightarrow>
               (case semver_NewVersion c (Version currentMax) of
                  None \<Rightarrow> Inl (Panic ''invalid memory address or nil pointer dereference'')
                | Some maxV \<Rightarrow>
                    if semver_GreaterThan c curV maxV
                    then appVersionsLoop c rest
                           (AList.update (AppVersion chartVersion) chartVersion appVersions)
                    else appVersionsLoop c rest appVersions)))"

text \<open>The plan of one retained chart version.\<close>

definition makePlan :: "string \<Rightarrow> chartVersion \<Rightarrow> plan" where
  "makePlan chart chartVersion =
     (let planToken = chart @ ''@'' @ AppVersion chartVersion;
          planID = cleaner_ReplaceAllString (ToLower planToken);
          planName = cleaner_ReplaceAllString (AppVersion chartVersion)
      in \<lparr>plan_ID = planID, plan_Name = planName,
          plan_Description = Description chartVersion, plan_Free = Some True\<rparr>)"

text \<open>
  The loop over \<open>appVersions\<close> that appends the plans. Go leaves the order of the
  iteration open; the model takes the order of the association list, and the theorems
  below do not depend on it.
\<close>

fun plansLoop :: "string \<Rightarrow> (string \<times> chartVersion) list \<Rightarrow> plan list \<Rightarrow> plan list" where
  "plansLoop chart [] plans = plans"
| "plansLoop chart ((appVersion, chartVersion) # rest) plans =
     plansLoop chart rest (plans @ [makePlan chart chartVersion])"

text \<open>The service of a chart as it is first built, without plans.\<close>

definition newService :: "string \<Rightarrow> string list \<Rightarrow> service_entry" where
  "newService chart tags =
     \<lparr>svc_ID = chart, svc_Name = chart, svc_Description = ''Helm Chart for '' @ chart,
      svc_Bindable = True, svc_Plans = [], svc_Tags = tags\<rparr>"

text \<open>The loop over \<open>charts\<close>, in the order of the iteration.\<close>

fun servicesLoop ::
  "('v, 'c) Client \<Rightarrow> (string \<times> chartVersion list) list \<Rightarrow> service_entry list
     \<Rightarrow> error + service_entry list" where
  "servicesLoop c [] services = Inr services"
| "servicesLoop c ((chart, chartVersions) # rest) services =
     (if providers c chart = None \<and> serviceCatalogEnabledOnly c
      then servicesLoop c rest services
      else
        let tags = getTagIntersection chartVersions;
            svc = newService chart tags in
        case appVersionsLoop c chartVersions [] of
          Inl err \<Rightarrow> Inl err
        | Inr appVersions \<Rightarrow>
            let svc = svc\<lparr>svc_Plans := plansLoop chart appVersions (svc_Plans svc)\<rparr>
            in if length (svc_Plans svc) = 0 then servicesLoop c rest services
               else servicesLoop c rest (services @ [svc]))"

definition ListServices :: "('v, 'c) Client \<Rightarrow> error + service_entry list" where
  "ListServices c =
     (case helm_ListCharts c of
        Inl err \<Rightarrow> Inl err
      | Inr charts \<Rightarrow> servicesLoop c charts [])"

subsection \<open>Constants\<close>

definition InstanceLabel :: string where "InstanceLabel = ''minibroker.instance''"
definition ServiceKey :: string where "ServiceKey = ''service-id''"
definition PlanKey :: string where "PlanKey = ''plan-id''"
definition ProvisionParamsKey :: string where "ProvisionParamsKey = ''provision-params''"
definition ReleaseNamespaceKey :: string where "ReleaseNamespaceKey = ''release-namespace''"
definition HeritageLabel :: string where "HeritageLabel = ''heritage''"
definition ReleaseLabel :: string where "ReleaseLabel = ''release''"
definition TillerHeritage :: string where "TillerHeritage = ''Tiller''"
definition OperationNameKey :: string where "OperationNameKey = ''last-operation-name''"
definition OperationStateKey :: string where "OperationStateKey = ''last-operation-state''"
definition OperationDescriptionKey :: string where
  "OperationDescriptionKey = ''last-operation-description''"
definition OperationPrefixProvision :: string where "OperationPrefixProvision = ''provision-''"
definition OperationPrefixDeprovision :: string where
  "OperationPrefixDeprovision = ''deprovision-''"
definition StateInProgress :: string where "StateInProgress = ''in progress''"
definition StateSucceeded :: string where "StateSucceeded = ''succeeded''"
definition StateFailed :: string where "StateFailed = ''failed''"

subsection \<open>Formatting\<close>

text \<open>The verb \<open>%x\<close> on a non-negative integer.\<close>

definition hexDigit :: "nat \<Rightarrow> char" where
  "hexDigit d = (if d < 10 then char_of (48 + d) else char_of (87 + d))"

function hex :: "nat \<Rightarrow> string" where
  "hex n = (if n < 16 then [hexDigit n] else hex (n div 16) @ [hexDigit (n mod 16)])"
  by pat_completeness auto
termination
  by (relation "measure id") auto

declare hex.simps [simp del]

text \<open>
  The verb \<open>%q\<close> on a string (\<open>strconv.Quote\<close>), on ASCII text: the text in double
  quotes, with the quote, the backslash and the control characters escaped.
\<close>

definition quoteChar :: "char \<Rightarrow> string" where
  "quoteChar c =
     (let n = (of_char c :: nat) in
      if n = 34 then [char_of (92::nat), char_of (34::nat)]
      else if n = 92 then [char_of (92::nat), char_of (92::nat)]
      else if 32 \<le> n \<and> n < 127 then [c]
      else if n = 7 then [char_of (92::nat), CHR ''a'']
      else if n = 8 then [char_of (92::nat), CHR ''b'']
      else if n = 12 then [char_of (92::nat), CHR ''f'']
      else if n = 10 then [char_of (92::nat), CHR ''n'']
      else if n = 13 then [char_of (92::nat), CHR ''r'']
      else if n = 9 then [char_of (92::nat), CHR ''t'']
      else if n = 11 then [char_of (92::nat), CHR ''v'']
      else [char_of (92::nat), CHR ''x'', hexDigit (n div 16), hexDigit (n mod 16)])"

definition Quote :: "string \<Rightarrow> string" where
  "Quote s = [char_of (34::nat)] @ concat (map quoteChar s) @ [char_of (34::nat)]"

text \<open>
  \<open>generateOperationName\<close>: the prefix and \<open>rand.Int31()\<close> in hexadecimal. The random
  number is an argument of the operation that draws it.
\<close>

definition generateOperationName :: "string \<Rightarrow> nat \<Rightarrow> string" where
  "generateOperationName prefix int31 = prefix @ hex int31"

subsection \<open>The instance record\<close>

text \<open>Reading a Go map of strings: a key that is absent reads as the empty string.\<close>

definition dataOf :: "configMap \<Rightarrow> string \<Rightarrow> string" where
  "dataOf config key = (case cm_Data config key of None \<Rightarrow> [] | Some v \<Rightarrow> v)"

definition getConfigMap ::
  "('v, 'c) Client \<Rightarrow> string \<Rightarrow> cluster \<Rightarrow> (error + configMap) \<times> cluster" where
  "getConfigMap c instanceID st =
     (case ConfigMaps_Get (namespace c) instanceID st of
        (Inl err, st') \<Rightarrow>
          (Inl (Wrapf err ''Failed to get config for instance %q'' [JString instanceID]), st')
      | (Inr config, st') \<Rightarrow> (Inr config, st'))"

text \<open>
  The loop of \<open>updateConfigMap\<close> over \<open>data\<close>: \<open>None\<close> is the value nil and removes the
  key, a string sets it. Every call in the file passes strings, so the third branch, the
  panic on a value of another type, is excluded by the type of \<open>data\<close>.
\<close>

fun applyData :: "(string \<times> string option) list \<Rightarrow> (string \<rightharpoonup> string) \<Rightarrow> (string \<rightharpoonup> string)" where
  "applyData [] d = d"
| "applyData ((name, None) # rest) d = applyData rest (d(name := None))"
| "applyData ((name, Some stringValue) # rest) d = applyData rest (d(name \<mapsto> stringValue))"

definition updateConfigMap ::
  "('v, 'c) Client \<Rightarrow> string \<Rightarrow> (string \<times> string option) list \<Rightarrow> cluster
     \<Rightarrow> error option \<times> cluster" where
  "updateConfigMap c instanceID data st =
     (case getConfigMap c instanceID st of
        (Inl err, st1) \<Rightarrow> (Some err, st1)
      | (Inr config, st1) \<Rightarrow>
          (case ConfigMaps_Update (namespace c)
                  (config\<lparr>cm_Data := applyData data (cm_Data config)\<rparr>) st1 of
             (Inl err, st2) \<Rightarrow>
               (Some (Wrapf err ''Failed to update config for instance %q''
                        [JString instanceID]), st2)
           | (Inr _, st2) \<Rightarrow> (None, st2)))"

subsection \<open>Installing and labelling\<close>

definition connectTiller :: "('v, 'c) Client \<Rightarrow> cluster \<Rightarrow> error option" where
  "connectTiller c st = PingTiller c st"

definition installRelease ::
  "('v, 'c) Client \<Rightarrow> string \<Rightarrow> string \<Rightarrow> string \<Rightarrow> params \<Rightarrow> bool \<Rightarrow> cluster
     \<Rightarrow> (error + release) \<times> cluster" where
  "installRelease c chartName chartVersion namespace' provisionParams wait st =
     (case helm_GetChart c chartName chartVersion of
        Inl err \<Rightarrow> (Inl err, st)
      | Inr chartDef \<Rightarrow>
          (case connectTiller c st of
             Some err \<Rightarrow> (Inl err, st)
           | None \<Rightarrow>
               (case LoadChart c chartDef of
                  Inl err \<Rightarrow> (Inl err, st)
                | Inr chart \<Rightarrow>
                    (case yaml_Marshal c provisionParams of
                       Inl err \<Rightarrow> (Inl err, st)
                     | Inr valuesYaml \<Rightarrow>
                         InstallReleaseFromChart c chart namespace'
                           \<lparr>ValueOverrides = valuesYaml, InstallReuseName = True,
                            InstallDisableHooks = True, InstallWait = wait\<rparr> st))))"

text \<open>
  \<open>labelService\<close> and \<open>labelSecret\<close>: the two-way merge patch between the object and its
  copy with the instance label set is the patch that sets this label. The three returns
  on an encoding error are not branches of the model: the objects are plain API
  structures, which always encode.
\<close>

definition labelService ::
  "('v, 'c) Client \<Rightarrow> k8s_service \<Rightarrow> string \<Rightarrow> params \<Rightarrow> cluster \<Rightarrow> error option \<times> cluster" where
  "labelService c service instanceID params' st =
     (case Services_Patch (sv_Namespace service) (sv_Name service)
             [(InstanceLabel, instanceID)] st of
        (Some err, st') \<Rightarrow>
          (Some (Wrapf err ''failed to label service %s/%s with service metadata''
                   [JString (sv_Namespace service), JString (sv_Name service)]), st')
      | (None, st') \<Rightarrow> (None, st'))"

definition labelSecret ::
  "('v, 'c) Client \<Rightarrow> k8s_secret \<Rightarrow> string \<Rightarrow> cluster \<Rightarrow> error option \<times> cluster" where
  "labelSecret c secret instanceID st =
     (case Secrets_Patch (sc_Namespace secret) (sc_Name secret)
             [(InstanceLabel, instanceID)] st of
        (Some err, st') \<Rightarrow>
          (Some (Wrapf err ''failed to label secret %s/%s with service metadata''
                   [JString (sc_Namespace secret), JString (sc_Name secret)]), st')
      | (None, st') \<Rightarrow> (None, st'))"

fun labelServices ::
  "('v, 'c) Client \<Rightarrow> k8s_service list \<Rightarrow> string \<Rightarrow> params \<Rightarrow> cluster
     \<Rightarrow> error option \<times> cluster" where
  "labelServices c [] instanceID provisionParams st = (None, st)"
| "labelServices c (service # rest) instanceID provisionParams st =
     (case labelService c service instanceID provisionParams st of
        (Some err, st') \<Rightarrow> (Some err, st')
      | (None, st') \<Rightarrow> labelServices c rest instanceID provisionParams st')"

fun labelSecrets ::
  "('v, 'c) Client \<Rightarrow> k8s_secret list \<Rightarrow> string \<Rightarrow> cluster \<Rightarrow> error option \<times> cluster" where
  "labelSecrets c [] instanceID st = (None, st)"
| "labelSecrets c (secret # rest) instanceID st =
     (case labelSecret c secret instanceID st of
        (Some err, st') \<Rightarrow> (Some err, st')
      | (None, st') \<Rightarrow> labelSecrets c rest instanceID st')"

definition updateProvisioningState ::
  "('v, 'c) Client \<Rightarrow> string \<Rightarrow> string \<Rightarrow> string \<Rightarrow> params \<Rightarrow> cluster
     \<Rightarrow> error option \<times> cluster" where
  "updateProvisioningState c releaseName instanceID namespace' provisionParams st =
     (let filterByRelease = [(HeritageLabel, TillerHeritage), (ReleaseLabel, releaseName)] in
      case Services_List namespace' filterByRelease st of
        (Inl err, st1) \<Rightarrow> (Some err, st1)
      | (Inr services, st1) \<Rightarrow>
          (case labelServices c services instanceID provisionParams st1 of
             (Some err, st2) \<Rightarrow> (Some err, st2)
           | (None, st2) \<Rightarrow>
               (case Secrets_List namespace' filterByRelease st2 of
                  (Inl err, st3) \<Rightarrow> (Some err, st3)
                | (Inr secrets, st3) \<Rightarrow>
                    (case labelSecrets c secrets instanceID st3 of
                       (Some err, st4) \<Rightarrow> (Some err, st4)
                     | (None, st4) \<Rightarrow>
                         (case updateConfigMap c instanceID
                                 [(ReleaseLabel, Some releaseName),
                                  (ReleaseNamespaceKey, Some namespace')] st4 of
                            (Some err, st5) \<Rightarrow>
                              (Some (Wrapf err
                                       ''could not update the instance configmap for %q''
                                       [JString instanceID]), st5)
                          | (None, st5) \<Rightarrow> (None, st5))))))"

subsection \<open>Provision\<close>

text \<open>
  The version of the chart, decoded from the plan ID (the two \<open>strings.Replace\<close> at the
  head of \<open>Provision\<close>).
\<close>

definition decodeChartVersion :: "string \<Rightarrow> string \<Rightarrow> string" where
  "decodeChartVersion planID serviceID =
     (let chartVersion = strings_Replace planID (serviceID @ ''-'') [] 1
      in strings_Replace chartVersion ''-'' ''.'' (- 1))"

text \<open>
  A goroutine that an operation starts and does not wait for: the values its closure
  captures. It runs later, on the cluster as it then is.
\<close>

datatype task =
    ProvisionTask string string string string params
  | DeprovisionTask string string

text \<open>The function \<open>fail\<close> of the provisioning goroutine; its own error is only logged.\<close>

definition provisionFail :: "('v, 'c) Client \<Rightarrow> string \<Rightarrow> cluster \<Rightarrow> cluster" where
  "provisionFail c instanceID st =
     snd (updateConfigMap c instanceID
            [(OperationStateKey, Some StateFailed),
             (OperationDescriptionKey,
              Some (''service instance '' @ Quote instanceID @ '' failed to provision''))] st)"

text \<open>The body of the provisioning goroutine.\<close>

definition provisionInBackground ::
  "('v, 'c) Client \<Rightarrow> string \<Rightarrow> string \<Rightarrow> string \<Rightarrow> string \<Rightarrow> params \<Rightarrow> cluster \<Rightarrow> cluster" where
  "provisionInBackground c instanceID chartName chartVersion namespace' provisionParams st =
     (case installRelease c chartName chartVersion namespace' provisionParams True st of
        (Inl err, st1) \<Rightarrow> provisionFail c instanceID st1
      | (Inr resp, st1) \<Rightarrow>
          (case updateProvisioningState c (rel_Name resp) instanceID (rel_Namespace resp)
                  provisionParams st1 of
             (Some err, st2) \<Rightarrow> provisionFail c instanceID st2
           | (None, st2) \<Rightarrow>
               snd (updateConfigMap c instanceID
                      [(OperationStateKey, Some StateSucceeded),
                       (OperationDescriptionKey,
                        Some (''service instance '' @ Quote instanceID @ '' provisioned''))]
                      st2)))"

text \<open>
  \<open>Provision\<close> returns the operation key or the error, the cluster after the call, and
  the goroutine it started, if any. \<open>int31\<close> is the value that \<open>rand.Int31()\<close> returns
  when it is drawn.
\<close>

definition Provision ::
  "('v, 'c) Client \<Rightarrow> string \<Rightarrow> string \<Rightarrow> string \<Rightarrow> string \<Rightarrow> bool \<Rightarrow> params \<Rightarrow> nat
     \<Rightarrow> cluster \<Rightarrow> (error + string) \<times> cluster \<times> task option" where
  "Provision c instanceID serviceID planID namespace' acceptsIncomplete provisionParams
     int31 st =
     (let chartName = serviceID;
          chartVersion = decodeChartVersion planID serviceID in
      case json_Marshal c provisionParams of
        Inl err \<Rightarrow>
          (Inl (Wrapf err ''could not marshall provisioning parameters %v''
                  [JObject provisionParams]), st, None)
      | Inr paramsJSON \<Rightarrow>
          let config = \<lparr>cm_Name = instanceID, cm_Namespace = namespace c,
                         cm_Labels = [ServiceKey \<mapsto> serviceID, PlanKey \<mapsto> planID],
                         cm_Data = [ProvisionParamsKey \<mapsto> paramsJSON,
                                    ServiceKey \<mapsto> serviceID, PlanKey \<mapsto> planID]\<rparr> in
          (case ConfigMaps_Create (cm_Namespace config) config st of
             (Inl err, st1) \<Rightarrow>
               if IsAlreadyExists err
               then (Inl (HTTPStatusCodeError StatusConflict
                            (Some ConcurrencyErrorMessage)
                            (Some ConcurrencyErrorDescription)), st1, None)
               else (Inl (Wrapf err ''could not persist the instance configmap for %q''
                            [JString instanceID]), st1, None)
           | (Inr _, st1) \<Rightarrow>
               if acceptsIncomplete then
                 let operationKey = generateOperationName OperationPrefixProvision int31 in
                 (case updateConfigMap c instanceID
                         [(OperationStateKey, Some StateInProgress),
                          (OperationNameKey, Some operationKey),
                          (OperationDescriptionKey,
                           Some (''provisioning service instance '' @ Quote instanceID))]
                         st1 of
                    (Some err, st2) \<Rightarrow>
                      (Inl (Wrapf err
                              ''Failed to set operation key when provisioning instance %s''
                              [JString instanceID]), st2, None)
                  | (None, st2) \<Rightarrow>
                      (Inr operationKey, st2,
                       Some (ProvisionTask instanceID chartName chartVersion namespace'
                               provisionParams)))
               else
                 (case installRelease c chartName chartVersion namespace' provisionParams
                         False st1 of
                    (Inl err, st2) \<Rightarrow> (Inl err, st2, None)
                  | (Inr resp, st2) \<Rightarrow>
                      (case updateProvisioningState c (rel_Name resp) instanceID
                              (rel_Namespace resp) provisionParams st2 of
                         (Some err, st3) \<Rightarrow> (Inl err, st3, None)
                       | (None, st3) \<Rightarrow> (Inr [], st3, None)))))"

subsection \<open>Bind\<close>

text \<open>The loops \<open>for k, v := range m { params[k] = v }\<close>.\<close>

fun assignAll :: "params \<Rightarrow> (string \<rightharpoonup> jvalue) \<Rightarrow> (string \<rightharpoonup> jvalue)" where
  "assignAll [] m = m"
| "assignAll ((k, v) # rest) m = assignAll rest (m(k \<mapsto> v))"

text \<open>\<open>Smoosh all the params together\<close>: the stored parameters first, then the caller's.\<close>

definition mergeParams :: "params \<Rightarrow> params \<Rightarrow> (string \<rightharpoonup> jvalue)" where
  "mergeParams provisionParams bindParams =
     assignAll bindParams (assignAll provisionParams Map.empty)"

text \<open>The loops that flatten the data of the secrets; a value is read as text.\<close>

fun secretEntries :: "(string \<times> string) list \<Rightarrow> (string \<rightharpoonup> jvalue) \<Rightarrow> (string \<rightharpoonup> jvalue)" where
  "secretEntries [] data = data"
| "secretEntries ((key, value) # rest) data = secretEntries rest (data(key \<mapsto> JString value))"

fun secretsData :: "k8s_secret list \<Rightarrow> (string \<rightharpoonup> jvalue) \<Rightarrow> (string \<rightharpoonup> jvalue)" where
  "secretsData [] data = data"
| "secretsData (secret # rest) data = secretsData rest (secretEntries (sc_Data secret) data)"

text \<open>\<open>Bind\<close> returns the credentials or the error, and the cluster after the call.\<close>

definition Bind ::
  "('v, 'c) Client \<Rightarrow> string \<Rightarrow> string \<Rightarrow> params \<Rightarrow> cluster
     \<Rightarrow> (error + (string \<rightharpoonup> jvalue)) \<times> cluster" where
  "Bind c instanceID serviceID bindParams st =
     (case ConfigMaps_Get (namespace c) instanceID st of
        (Inl err, st1) \<Rightarrow>
          if IsNotFound err
          then (Inl (HTTPStatusCodeError StatusNotFound
                       (Some (''could not find configmap '' @ namespace c @ ''/'' @ instanceID))
                       None), st1)
          else (Inl err, st1)
      | (Inr config, st1) \<Rightarrow>
          let releaseNamespace = dataOf config ReleaseNamespaceKey;
              rawProvisionParams = dataOf config ProvisionParamsKey in
          (case json_Unmarshal c rawProvisionParams of
             Inl err \<Rightarrow>
               (Inl (Wrapf err ''could not unmarshall provision parameters for instance %q''
                       [JString instanceID]), st1)
           | Inr provisionParams \<Rightarrow>
               let params' = mergeParams provisionParams bindParams;
                   filterByInstance = [(InstanceLabel, instanceID)] in
               (case Services_List releaseNamespace filterByInstance st1 of
                  (Inl err, st2) \<Rightarrow> (Inl err, st2)
                | (Inr services, st2) \<Rightarrow>
                    if length services = 0
                    then (Inl (HTTPStatusCodeError StatusNotFound None None), st2)
                    else
                      (case Secrets_List releaseNamespace filterByInstance st2 of
                         (Inl err, st3) \<Rightarrow> (Inl err, st3)
                       | (Inr secrets, st3) \<Rightarrow>
                           if length secrets = 0
                           then (Inl (HTTPStatusCodeError StatusNotFound None None), st3)
                           else
                             let data = secretsData secrets Map.empty in
                             (case providers c serviceID of
                                None \<Rightarrow> (Inr data, st3)
                              | Some provider \<Rightarrow>
                                  (case provider services params' data of
                                     Inl err \<Rightarrow>
                                       (Inl (Wrapf err ''unable to bind instance %s''
                                               [JString instanceID]), st3)
                                   | Inr creds \<Rightarrow> (Inr (assignAll creds data), st3)))))))"

subsection \<open>Deprovision\<close>

definition deprovisionSynchronously ::
  "('v, 'c) Client \<Rightarrow> string \<Rightarrow> string \<Rightarrow> cluster \<Rightarrow> error option \<times> cluster" where
  "deprovisionSynchronously c instanceID release st =
     (case connectTiller c st of
        Some err \<Rightarrow> (Some err, st)
      | None \<Rightarrow>
          (case DeleteRelease c release
                  \<lparr>DeleteDisableHooks = False, DeletePurge = True\<rparr> st of
             (Some err, st1) \<Rightarrow>
               (Some (Wrapf err ''could not delete release %s'' [JString release]), st1)
           | (None, st1) \<Rightarrow>
               (case ConfigMaps_Delete (namespace c) instanceID st1 of
                  (Some err, st2) \<Rightarrow>
                    (Some (Wrapf err ''could not delete configmap %s/%s''
                             [JString (namespace c), JString instanceID]), st2)
                | (None, st2) \<Rightarrow> (None, st2))))"

text \<open>The body of the deprovisioning goroutine.\<close>

definition deprovisionInBackground ::
  "('v, 'c) Client \<Rightarrow> string \<Rightarrow> string \<Rightarrow> cluster \<Rightarrow> cluster" where
  "deprovisionInBackground c instanceID release st =
     (case deprovisionSynchronously c instanceID release st of
        (None, st1) \<Rightarrow> st1
      | (Some err, st1) \<Rightarrow>
          snd (updateConfigMap c instanceID
                 [(OperationStateKey, Some StateFailed),
                  (OperationDescriptionKey,
                   Some (''service instance '' @ Quote instanceID @ '' failed to deprovision''))]
                 st1))"

definition Deprovision ::
  "('v, 'c) Client \<Rightarrow> string \<Rightarrow> bool \<Rightarrow> nat \<Rightarrow> cluster
     \<Rightarrow> (error + string) \<times> cluster \<times> task option" where
  "Deprovision c instanceID acceptsIncomplete int31 st =
     (case ConfigMaps_Get (namespace c) instanceID st of
        (Inl err, st1) \<Rightarrow>
          if IsNotFound err
          then (Inl (HTTPStatusCodeError StatusGone None None), st1, None)
          else (Inl err, st1, None)
      | (Inr config, st1) \<Rightarrow>
          let release = dataOf config ReleaseLabel in
          if \<not> acceptsIncomplete then
            (case deprovisionSynchronously c instanceID release st1 of
               (Some err, st2) \<Rightarrow> (Inl err, st2, None)
             | (None, st2) \<Rightarrow> (Inr [], st2, None))
          else
            let operationKey = generateOperationName OperationPrefixDeprovision int31 in
            (case updateConfigMap c instanceID
                    [(OperationStateKey, Some StateInProgress),
                     (OperationNameKey, Some operationKey),
                     (OperationDescriptionKey,
                      Some (''deprovisioning service instance '' @ Quote instanceID))] st1 of
               (Some err, st2) \<Rightarrow>
                 (Inl (Wrapf err
                         ''Failed to set operation key when deprovisioning instance %s''
                         [JString instanceID]), st2, None)
             | (None, st2) \<Rightarrow>
                 (Inr operationKey, st2, Some (DeprovisionTask instanceID release))))"

text \<open>Running a goroutine to its end.\<close>

fun runTask :: "('v, 'c) Client \<Rightarrow> task \<Rightarrow> cluster \<Rightarrow> cluster" where
  "runTask c (ProvisionTask instanceID chartName chartVersion namespace' provisionParams) st =
     provisionInBackground c instanceID chartName chartVersion namespace' provisionParams st"
| "runTask c (DeprovisionTask instanceID release) st =
     deprovisionInBackground c instanceID release st"

subsection \<open>LastOperationState\<close>

text \<open>\<open>osb.LastOperationResponse\<close>.\<close>

record lastOperationResponse =
  lo_State :: string
  lo_Description :: "string option"

text \<open>
  \<open>operationKey != nil && config.Data[OperationNameKey] != string(*operationKey)\<close>;
  \<open>None\<close> is the nil pointer.
\<close>

fun unexpectedKey :: "string option \<Rightarrow> string \<Rightarrow> bool" where
  "unexpectedKey None stored = False"
| "unexpectedKey (Some key) stored = (stored \<noteq> key)"

definition LastOperationState ::
  "('v, 'c) Client \<Rightarrow> string \<Rightarrow> string option \<Rightarrow> cluster
     \<Rightarrow> (error + lastOperationResponse) \<times> cluster" where
  "LastOperationState c instanceID operationKey st =
     (case ConfigMaps_Get (namespace c) instanceID st of
        (Inl err, st1) \<Rightarrow>
          if IsNotFound err
          then (Inl (HTTPStatusCodeError StatusGone None None), st1)
          else (Inl err, st1)
      | (Inr config, st1) \<Rightarrow>
          if unexpectedKey operationKey (dataOf config OperationNameKey)
          then (Inl (HTTPStatusCodeError StatusBadRequest
                       (Some ConcurrencyErrorMessage)
                       (Some ConcurrencyErrorDescription)), st1)
          else
            let description = dataOf config OperationDescriptionKey in
            (Inr \<lparr>lo_State = dataOf config OperationStateKey,
                  lo_Description = Some description\<rparr>, st1))"

section \<open>Example data\<close>

text \<open>
  An instance of the version library for the examples: versions of the plain form
  \<open>MAJOR.MINOR.PATCH\<close>, compared field by field.
\<close>

fun splitOn :: "char \<Rightarrow> string \<Rightarrow> string list" where
  "splitOn sep [] = [[]]"
| "splitOn sep (ch # rest) =
     (if ch = sep then [] # splitOn sep rest
      else case splitOn sep rest of
             [] \<Rightarrow> [[ch]]
           | part # parts \<Rightarrow> (ch # part) # parts)"

definition isDigit :: "char \<Rightarrow> bool" where
  "isDigit ch = (let n = (of_char ch :: nat) in 48 \<le> n \<and> n \<le> 57)"

definition decimal :: "string \<Rightarrow> nat option" where
  "decimal s =
     (if s \<noteq> [] \<and> list_all isDigit s
      then Some (foldl (\<lambda>n ch. 10 * n + (of_char ch - 48)) 0 s)
      else None)"

definition plainVersion :: "string \<Rightarrow> (nat \<times> nat \<times> nat) option" where
  "plainVersion s =
     (case map decimal (splitOn CHR ''.'' s) of
        [Some major, Some minor, Some patch] \<Rightarrow> Some (major, minor, patch)
      | _ \<Rightarrow> None)"

fun plainGreaterThan :: "nat \<times> nat \<times> nat \<Rightarrow> nat \<times> nat \<times> nat \<Rightarrow> bool" where
  "plainGreaterThan (a, b, c) (a', b', c') =
     (a > a' \<or> (a = a' \<and> (b > b' \<or> (b = b' \<and> c > c'))))"

text \<open>The three descriptors of the package \<open>pg\<close>.\<close>

definition pg_1_0_0 :: chartVersion where
  "pg_1_0_0 = \<lparr>Name = ''pg'', Version = ''1.0.0'', AppVersion = ''9.6'',
               Description = ''pg 9.6, first packaging'', Keywords = [''sql'', ''database'']\<rparr>"

definition pg_1_1_0 :: chartVersion where
  "pg_1_1_0 = \<lparr>Name = ''pg'', Version = ''1.1.0'', AppVersion = ''9.6'',
               Description = ''pg 9.6, second packaging'', Keywords = [''database'', ''sql'']\<rparr>"

definition pg_2_0_0 :: chartVersion where
  "pg_2_0_0 = \<lparr>Name = ''pg'', Version = ''2.0.0'', AppVersion = ''10.1'',
               Description = ''pg 10.1'', Keywords = [''database'']\<rparr>"

text \<open>A descriptor of \<open>pg\<close> with the given keywords.\<close>

definition withKeywords :: "string list \<Rightarrow> chartVersion" where
  "withKeywords ks = \<lparr>Name = ''pg'', Version = ''1.0.0'', AppVersion = ''9.6'',
                       Description = [], Keywords = ks\<rparr>"

text \<open>
  Stand-ins for the collaborators of the examples. The encoder knows the parameter maps
  of the examples; the installer creates one service and one secret for a release and
  leaves everything else of the cluster as it is; the provider hands back the
  parameters \<open>a\<close> and \<open>b\<close> it was given.
\<close>

definition exampleMarshal :: "params \<Rightarrow> error + string" where
  "exampleMarshal ps =
     (if ps = [] then Inr ''null''
      else if ps = [(''a'', JNumber 1)] then Inr ''a=1''
      else Inl (External ''json: unsupported value''))"

definition exampleUnmarshal :: "string \<Rightarrow> error + params" where
  "exampleUnmarshal s =
     (if s = ''null'' then Inr []
      else if s = ''a=1'' then Inr [(''a'', JNumber 1)]
      else Inl (External ''json: unexpected end of input''))"

definition exampleGetChart :: "string \<Rightarrow> string \<Rightarrow> error + chartVersion" where
  "exampleGetChart name version =
     (case find (\<lambda>d. Name d = name \<and> AppVersion d = version) [pg_1_0_0, pg_1_1_0, pg_2_0_0] of
        None \<Rightarrow> Inl (External ''chart not found'')
      | Some d \<Rightarrow> Inr d)"

definition exampleInstall ::
  "chartVersion \<Rightarrow> string \<Rightarrow> installOptions \<Rightarrow> cluster \<Rightarrow> (error + release) \<times> cluster" where
  "exampleInstall chart ns opts st =
     (let name = ''release-of-'' @ Name chart;
          labels = [''heritage'' \<mapsto> ''Tiller'', ''release'' \<mapsto> name] in
      (Inr \<lparr>rel_Name = name, rel_Namespace = ns\<rparr>,
       st\<lparr>serviceObjects := serviceObjects st @
              [\<lparr>sv_Name = name, sv_Namespace = ns, sv_Labels = labels\<rparr>],
          secretObjects := secretObjects st @
              [\<lparr>sc_Name = name, sc_Namespace = ns, sc_Labels = labels,
                sc_Data = [(''password'', ''secret'')]\<rparr>],
          releases := releases st @ [name]\<rparr>))"

definition exampleDelete ::
  "string \<Rightarrow> deleteOptions \<Rightarrow> cluster \<Rightarrow> error option \<times> cluster" where
  "exampleDelete name opts st =
     (if name \<in> set (releases st)
      then (None,
            st\<lparr>serviceObjects := filter (\<lambda>s. sv_Labels s ''release'' \<noteq> Some name) (serviceObjects st),
               secretObjects := filter (\<lambda>s. sc_Labels s ''release'' \<noteq> Some name) (secretObjects st),
               releases := removeAll name (releases st)\<rparr>)
      else (Some (External ''release not found''), st))"

definition exampleProvider :: provider where
  "exampleProvider services params' data =
     Inr (map (\<lambda>k. (k, case params' k of None \<Rightarrow> JNull | Some v \<Rightarrow> v)) [''a'', ''b''])"

definition exampleClient :: "(nat \<times> nat \<times> nat, chartVersion) Client" where
  "exampleClient =
     \<lparr>helm_ListCharts = Inr [(''pg'', [pg_1_0_0, pg_1_1_0, pg_2_0_0])],
      helm_GetChart = exampleGetChart,
      namespace = ''minibroker'',
      providers = [''pg'' \<mapsto> exampleProvider],
      serviceCatalogEnabledOnly = True,
      semver_NewVersion = plainVersion,
      semver_GreaterThan = plainGreaterThan,
      json_Marshal = exampleMarshal,
      json_Unmarshal = exampleUnmarshal,
      yaml_Marshal = (\<lambda>ps. Inr []),
      LoadChart = Inr,
      PingTiller = (\<lambda>st. None),
      InstallReleaseFromChart = exampleInstall,
      DeleteRelease = exampleDelete\<rparr>"

text \<open>An empty cluster, and a cluster with one provisioned instance.\<close>

definition emptyCluster :: cluster where
  "emptyCluster =
     \<lparr>configMaps = Map.empty, serviceObjects = [], secretObjects = [], releases = [],
      unreachable = {}\<rparr>"

definition provisionedCluster :: cluster where
  "provisionedCluster =
     \<lparr>configMaps =
        [(''minibroker'', ''i-1'') \<mapsto>
           ([''service-id'' \<mapsto> ''pg'', ''plan-id'' \<mapsto> ''pg-9-6''],
            [''provision-params'' \<mapsto> ''a=1'', ''service-id'' \<mapsto> ''pg'',
             ''plan-id'' \<mapsto> ''pg-9-6'', ''release'' \<mapsto> ''release-of-pg'',
             ''release-namespace'' \<mapsto> ''apps'',
             ''last-operation-name'' \<mapsto> ''provision-1f'',
             ''last-operation-state'' \<mapsto> ''succeeded'',
             ''last-operation-description'' \<mapsto> ''provisioned''])],
      serviceObjects =
        [\<lparr>sv_Name = ''release-of-pg'', sv_Namespace = ''apps'',
          sv_Labels = [''heritage'' \<mapsto> ''Tiller'', ''release'' \<mapsto> ''release-of-pg'',
                       ''minibroker.instance'' \<mapsto> ''i-1'']\<rparr>],
      secretObjects =
        [\<lparr>sc_Name = ''release-of-pg'', sc_Namespace = ''apps'',
          sc_Labels = [''heritage'' \<mapsto> ''Tiller'', ''release'' \<mapsto> ''release-of-pg'',
                       ''minibroker.instance'' \<mapsto> ''i-1''],
          sc_Data = [(''password'', ''secret'')]\<rparr>],
      releases = [''release-of-pg''],
      unreachable = {}\<rparr>"

text \<open>The same instance after its secret has gone: nothing carries the label.\<close>

definition secretlessCluster :: cluster where
  "secretlessCluster = provisionedCluster\<lparr>secretObjects := []\<rparr>"

text \<open>
  A client whose repository has one package with capital letters in its name and in its
  \<open>appVersion\<close>, and the catalog entry expected for it.
\<close>

definition redis_rc :: chartVersion where
  "redis_rc = \<lparr>Name = ''Redis'', Version = ''4.0.1'', AppVersion = ''5.0-RC1'',
               Description = ''Redis release candidate'', Keywords = [''cache'']\<rparr>"

definition mixedCaseClient :: "(nat \<times> nat \<times> nat, chartVersion) Client" where
  "mixedCaseClient =
     exampleClient\<lparr>helm_ListCharts := Inr [(''Redis'', [redis_rc])],
                   serviceCatalogEnabledOnly := False\<rparr>"

definition redisEntry :: service_entry where
  "redisEntry =
     \<lparr>svc_ID = ''Redis'', svc_Name = ''Redis'', svc_Description = ''Helm Chart for Redis'',
      svc_Bindable = True,
      svc_Plans =
        [\<lparr>plan_ID = ''redis-5-0-rc1'', plan_Name = ''5-0---1'',
          plan_Description = ''Redis release candidate'', plan_Free = Some True\<rparr>],
      svc_Tags = [''cache'']\<rparr>"

text \<open>
  A client whose repository has a package with the keyword lists \<open>[a, b]\<close> and
  \<open>[b, c]\<close> and a package with the one keyword list \<open>[x, y]\<close>, and the catalog
  entries expected for them.
\<close>

definition tagsClient :: "(nat \<times> nat \<times> nat, chartVersion) Client" where
  "tagsClient =
     exampleClient\<lparr>helm_ListCharts :=
                     Inr [(''ab'', [withKeywords [''a'', ''b''], withKeywords [''b'', ''c'']]),
                          (''xy'', [withKeywords [''x'', ''y'']])],
                   serviceCatalogEnabledOnly := False\<rparr>"

definition abEntry :: service_entry where
  "abEntry =
     \<lparr>svc_ID = ''ab'', svc_Name = ''ab'', svc_Description = ''Helm Chart for ab'',
      svc_Bindable = True,
      svc_Plans = [\<lparr>plan_ID = ''ab-9-6'', plan_Name = ''9-6'', plan_Description = [],
                    plan_Free = Some True\<rparr>],
      svc_Tags = [''b'']\<rparr>"

definition xyEntry :: service_entry where
  "xyEntry =
     \<lparr>svc_ID = ''xy'', svc_Name = ''xy'', svc_Description = ''Helm Chart for xy'',
      svc_Bindable = True,
      svc_Plans = [\<lparr>plan_ID = ''xy-9-6'', plan_Name = ''9-6'', plan_Description = [],
                    plan_Free = Some True\<rparr>],
      svc_Tags = [''x'', ''y'']\<rparr>"

section \<open>Tags of a catalog entry\<close>

lemma hasTag_iff: "hasTag tag list = (tag \<in> set list)"
  by (induction list) auto

lemma inAllOthers_iff: "inAllOthers t others = (\<forall>other \<in> set others. t \<in> set other)"
  by (induction others) (auto simp: hasTag_iff)

lemma searchTags_eq:
  "searchTags ts others acc = acc @ filter (\<lambda>t. inAllOthers t others) ts"
  by (induction ts arbitrary: acc) auto

lemma getTagIntersection_cases:
  "getTagIntersection [] = [] \<and>
   getTagIntersection [d] = Keywords d \<and>
   set (getTagIntersection (d # ds)) = (\<Inter>x \<in> set (d # ds). set (Keywords x))"
proof (cases ds)
  case Nil
  then show ?thesis by (simp add: getTagIntersection_def)
next
  case (Cons e es)
  then show ?thesis
    by (auto simp: getTagIntersection_def searchTags_eq inAllOthers_iff)
qed

section \<open>Reads of the cluster\<close>

lemma ConfigMaps_Get_found:
  "ConfigMapGet \<notin> unreachable st \<Longrightarrow> lookupConfigMap st ns name = Some config \<Longrightarrow>
   ConfigMaps_Get ns name st = (Inr config, st)"
  by (simp add: ConfigMaps_Get_def)

lemma ConfigMaps_Get_missing:
  "ConfigMapGet \<notin> unreachable st \<Longrightarrow> lookupConfigMap st ns name = None \<Longrightarrow>
   ConfigMaps_Get ns name st = (Inl (StatusError NotFound), st)"
  by (simp add: ConfigMaps_Get_def)

lemma ConfigMaps_Get_state: "snd (ConfigMaps_Get ns name st) = st"
  by (simp add: ConfigMaps_Get_def split: option.splits)

lemma Services_List_state: "snd (Services_List ns selector st) = st"
  by (simp add: Services_List_def)

lemma Secrets_List_state: "snd (Secrets_List ns selector st) = st"
  by (simp add: Secrets_List_def)

lemma provisioned_reachable: "unreachable provisionedCluster = {}"
  by (simp add: provisionedCluster_def)

lemma provisioned_lookup_i1:
  "lookupConfigMap provisionedCluster (namespace exampleClient) ''i-1'' =
     Some \<lparr>cm_Name = ''i-1'', cm_Namespace = ''minibroker'',
           cm_Labels = [''service-id'' \<mapsto> ''pg'', ''plan-id'' \<mapsto> ''pg-9-6''],
           cm_Data = [''provision-params'' \<mapsto> ''a=1'', ''service-id'' \<mapsto> ''pg'',
             ''plan-id'' \<mapsto> ''pg-9-6'', ''release'' \<mapsto> ''release-of-pg'',
             ''release-namespace'' \<mapsto> ''apps'',
             ''last-operation-name'' \<mapsto> ''provision-1f'',
             ''last-operation-state'' \<mapsto> ''succeeded'',
             ''last-operation-description'' \<mapsto> ''provisioned'']\<rparr>"
  by (simp add: lookupConfigMap_def provisionedCluster_def exampleClient_def)

lemma provisioned_lookup_i9:
  "lookupConfigMap provisionedCluster (namespace exampleClient) ''i-9'' = None"
  by (simp add: lookupConfigMap_def provisionedCluster_def exampleClient_def)

text \<open>
  Claim C10. Bind never changes the state: whatever its arguments and whether it
  succeeds or fails, the cluster after the call (instance records, labelled services
  and secrets, installed releases) is the cluster before it.
\<close>

theorem Bind_frame: "snd (Bind c instanceID serviceID bindParams st) = st"
proof -
  obtain r1 where g: "ConfigMaps_Get (namespace c) instanceID st = (r1, st)"
    using ConfigMaps_Get_state[of "namespace c" instanceID st] by (metis prod.collapse)
  have sv: "\<And>ns sel. \<exists>r. Services_List ns sel st = (r, st)"
    using Services_List_state by (metis prod.collapse)
  have sc: "\<And>ns sel. \<exists>r. Secrets_List ns sel st = (r, st)"
    using Secrets_List_state by (metis prod.collapse)
  show ?thesis
  proof (cases r1)
    case (Inl err)
    then show ?thesis using g by (simp add: Bind_def)
  next
    case (Inr config)
    obtain r2 where l1:
      "Services_List (dataOf config ReleaseNamespaceKey) [(InstanceLabel, instanceID)] st
         = (r2, st)"
      using sv by blast
    obtain r3 where l2:
      "Secrets_List (dataOf config ReleaseNamespaceKey) [(InstanceLabel, instanceID)] st
         = (r3, st)"
      using sc by blast
    show ?thesis using g Inr l1 l2
      by (simp add: Bind_def Let_def split: sum.splits option.splits)
  qed
qed

theorem Bind_frame_witness:
  "snd (Bind exampleClient ''i-1'' ''pg'' [(''a'', JNumber 2), (''b'', JNumber 3)]
          provisionedCluster) = provisionedCluster"
  by (rule Bind_frame)

text \<open>
  Claim C5. A deprovision call and a poll (\<open>LastOperationState\<close>) for an instance ID
  that has no instance record return the Gone condition, the HTTP status 410: not the
  status 404 of NotFound, and not the error of the cluster client. The cluster is left
  as it was and no goroutine is started. The request reaches the store.
\<close>

theorem missing_record_is_Gone:
  assumes "ConfigMapGet \<notin> unreachable st"
    and "lookupConfigMap st (namespace c) instanceID = None"
  shows "Deprovision c instanceID acceptsIncomplete int31 st =
           (Inl (HTTPStatusCodeError 410 None None), st, None) \<and>
         LastOperationState c instanceID operationKey st =
           (Inl (HTTPStatusCodeError 410 None None), st) \<and>
         StatusGone = 410 \<and> StatusNotFound = 404 \<and>
         \<not> IsNotFound (HTTPStatusCodeError 410 None None)"
  using ConfigMaps_Get_missing[OF assms]
  by (simp add: Deprovision_def LastOperationState_def StatusGone_def StatusNotFound_def)

theorem missing_record_is_Gone_witness:
  "Deprovision exampleClient ''i-9'' False 7 provisionedCluster =
     (Inl (HTTPStatusCodeError 410 None None), provisionedCluster, None) \<and>
   LastOperationState exampleClient ''i-9'' (Some ''deprovision-7'') provisionedCluster =
     (Inl (HTTPStatusCodeError 410 None None), provisionedCluster)"
proof -
  have h: "ConfigMapGet \<notin> unreachable provisionedCluster"
    by (simp add: provisioned_reachable)
  from missing_record_is_Gone[OF h provisioned_lookup_i9, of False 7 "Some ''deprovision-7''"]
  show ?thesis by simp
qed

text \<open>
  Claim C4. A poll on an existing instance record with an operation token that differs
  from the stored one fails with the ConcurrencyError condition; without a token, or
  with the stored token, it returns the stored operation state and description. The
  stored token is \<open>config.Data[OperationNameKey]\<close>, which reads as the empty string in
  a record that has none. The request reaches the store.
\<close>

theorem LastOperationState_token:
  assumes "ConfigMapGet \<notin> unreachable st"
    and "lookupConfigMap st (namespace c) instanceID = Some config"
  shows "(token \<noteq> dataOf config OperationNameKey \<longrightarrow>
            LastOperationState c instanceID (Some token) st =
              (Inl (HTTPStatusCodeError 400 (Some ''ConcurrencyError'')
                      (Some ''Concurrent modification not supported'')), st)) \<and>
         LastOperationState c instanceID None st =
           (Inr \<lparr>lo_State = dataOf config OperationStateKey,
                 lo_Description = Some (dataOf config OperationDescriptionKey)\<rparr>, st) \<and>
         LastOperationState c instanceID (Some (dataOf config OperationNameKey)) st =
           (Inr \<lparr>lo_State = dataOf config OperationStateKey,
                 lo_Description = Some (dataOf config OperationDescriptionKey)\<rparr>, st)"
  using ConfigMaps_Get_found[OF assms]
  by (auto simp: LastOperationState_def StatusBadRequest_def ConcurrencyErrorMessage_def
      ConcurrencyErrorDescription_def)

theorem LastOperationState_token_witness:
  "LastOperationState exampleClient ''i-1'' (Some ''provision-2a'') provisionedCluster =
     (Inl (HTTPStatusCodeError 400 (Some ''ConcurrencyError'')
             (Some ''Concurrent modification not supported'')), provisionedCluster) \<and>
   LastOperationState exampleClient ''i-1'' None provisionedCluster =
     (Inr \<lparr>lo_State = ''succeeded'', lo_Description = Some ''provisioned''\<rparr>,
      provisionedCluster) \<and>
   LastOperationState exampleClient ''i-1'' (Some ''provision-1f'') provisionedCluster =
     (Inr \<lparr>lo_State = ''succeeded'', lo_Description = Some ''provisioned''\<rparr>,
      provisionedCluster)"
proof -
  have h: "ConfigMapGet \<notin> unreachable provisionedCluster"
    by (simp add: provisioned_reachable)
  from LastOperationState_token[OF h provisioned_lookup_i1, of "''provision-2a''"]
  show ?thesis
    by (simp add: dataOf_def OperationNameKey_def OperationStateKey_def
        OperationDescriptionKey_def)
qed

section \<open>Binding\<close>

lemma secretless_lookup_i1:
  "lookupConfigMap secretlessCluster (namespace exampleClient) ''i-1'' =
     lookupConfigMap provisionedCluster (namespace exampleClient) ''i-1''"
  by (simp add: lookupConfigMap_def secretlessCluster_def)

text \<open>
  Claim C6. A bind call on an existing instance record fails with NotFound, the HTTP
  status 404, and returns no credentials when the list of services that carry the
  instance label in the release namespace is empty, or when that list is not empty and
  the list of labelled secrets is. The requests reach the store, and the stored
  provisioning parameters decode.
\<close>

theorem Bind_without_resources_is_NotFound:
  assumes "ConfigMapGet \<notin> unreachable st"
    and "lookupConfigMap st (namespace c) instanceID = Some config"
    and "json_Unmarshal c (dataOf config ProvisionParamsKey) = Inr provisionParams"
    and "fst (Services_List (dataOf config ReleaseNamespaceKey) [(InstanceLabel, instanceID)] st)
           = Inr services"
    and "services = [] \<or>
         fst (Secrets_List (dataOf config ReleaseNamespaceKey) [(InstanceLabel, instanceID)] st)
           = Inr []"
  shows "Bind c instanceID serviceID bindParams st =
           (Inl (HTTPStatusCodeError 404 None None), st)"
proof -
  have l1: "Services_List (dataOf config ReleaseNamespaceKey) [(InstanceLabel, instanceID)] st = (Inr services, st)"
    using assms(4) Services_List_state by (metis prod.collapse)
  show ?thesis
  proof (cases "services = []")
    case True
    then show ?thesis using ConfigMaps_Get_found[OF assms(1,2)] assms(3) l1
      by (simp add: Bind_def Let_def StatusNotFound_def)
  next
    case False
    with assms(5) have "Secrets_List (dataOf config ReleaseNamespaceKey) [(InstanceLabel, instanceID)] st = (Inr [], st)"
      using Secrets_List_state by (metis prod.collapse)
    then show ?thesis using False ConfigMaps_Get_found[OF assms(1,2)] assms(3) l1
      by (simp add: Bind_def Let_def StatusNotFound_def)
  qed
qed

theorem Bind_without_resources_is_NotFound_witness:
  "Bind exampleClient ''i-1'' ''pg'' [(''a'', JNumber 2), (''b'', JNumber 3)] secretlessCluster =
     (Inl (HTTPStatusCodeError 404 None None), secretlessCluster)"
proof -
  let ?config = "\<lparr>cm_Name = ''i-1'', cm_Namespace = ''minibroker'',
           cm_Labels = [''service-id'' \<mapsto> ''pg'', ''plan-id'' \<mapsto> ''pg-9-6''],
           cm_Data = [''provision-params'' \<mapsto> ''a=1'', ''service-id'' \<mapsto> ''pg'',
             ''plan-id'' \<mapsto> ''pg-9-6'', ''release'' \<mapsto> ''release-of-pg'',
             ''release-namespace'' \<mapsto> ''apps'',
             ''last-operation-name'' \<mapsto> ''provision-1f'',
             ''last-operation-state'' \<mapsto> ''succeeded'',
             ''last-operation-description'' \<mapsto> ''provisioned'']\<rparr>"
  have h1: "ConfigMapGet \<notin> unreachable secretlessCluster"
    by (simp add: secretlessCluster_def provisioned_reachable)
  have h2: "lookupConfigMap secretlessCluster (namespace exampleClient) ''i-1'' = Some ?config"
    by (simp add: secretless_lookup_i1 provisioned_lookup_i1)
  have h3: "json_Unmarshal exampleClient (dataOf ?config ProvisionParamsKey)
              = Inr [(''a'', JNumber 1)]"
    by (simp add: exampleClient_def exampleUnmarshal_def dataOf_def ProvisionParamsKey_def)
  have h4: "fst (Services_List (dataOf ?config ReleaseNamespaceKey)
                   [(InstanceLabel, ''i-1'')] secretlessCluster)
              = Inr (serviceObjects provisionedCluster)"
    by (simp add: Services_List_def secretlessCluster_def provisionedCluster_def dataOf_def
        ReleaseNamespaceKey_def InstanceLabel_def inNamespace_def matchesSelector_def)
  have h5: "serviceObjects provisionedCluster = [] \<or>
            fst (Secrets_List (dataOf ?config ReleaseNamespaceKey)
                   [(InstanceLabel, ''i-1'')] secretlessCluster) = Inr []"
    by (simp add: Secrets_List_def secretlessCluster_def provisionedCluster_def)
  from Bind_without_resources_is_NotFound[OF h1 h2 h3 h4 h5] show ?thesis .
qed

lemma assignAll_eq: "distinct (map fst ps) \<Longrightarrow> assignAll ps m = m ++ map_of ps"
proof (induction ps arbitrary: m)
  case Nil
  then show ?case by simp
next
  case (Cons p ps)
  obtain k v where p: "p = (k, v)" by (cases p)
  from Cons.prems have k: "k \<notin> fst ` set ps" and d: "distinct (map fst ps)"
    unfolding p by auto
  then have none: "map_of ps k = None" by (simp add: map_of_eq_None_iff)
  have e: "m(k \<mapsto> v) ++ map_of ps = m ++ map_of ((k, v) # ps)"
  proof (rule ext)
    fix x
    show "(m(k \<mapsto> v) ++ map_of ps) x = (m ++ map_of ((k, v) # ps)) x"
      using none by (simp add: map_add_def split: option.splits)
  qed
  have "assignAll ((k, v) # ps) m = assignAll ps (m(k \<mapsto> v))" by simp
  also have "\<dots> = m(k \<mapsto> v) ++ map_of ps" by (rule Cons.IH[OF d])
  also have "\<dots> = m ++ map_of ((k, v) # ps)" by (rule e)
  finally show ?case unfolding p .
qed

text \<open>
  Claim C7. The parameters that Bind passes on to the provider are the stored
  provisioning parameters merged with the caller's bind parameters, and on a key of
  both the bind-time value wins: stored \<open>{a:1}\<close> and bind \<open>{a:2,b:3}\<close> give
  \<open>{a:2,b:3}\<close>. The keys of a Go map are distinct.
\<close>

theorem Bind_params_precedence:
  assumes "distinct (map fst provisionParams)" "distinct (map fst bindParams)"
  shows "mergeParams provisionParams bindParams = map_of provisionParams ++ map_of bindParams \<and>
         (\<forall>k v. map_of bindParams k = Some v \<longrightarrow> mergeParams provisionParams bindParams k = Some v) \<and>
         (\<forall>k. map_of bindParams k = None \<longrightarrow>
               mergeParams provisionParams bindParams k = map_of provisionParams k) \<and>
         (ConfigMapGet \<notin> unreachable st \<and>
          lookupConfigMap st (namespace c) instanceID = Some config \<and>
          json_Unmarshal c (dataOf config ProvisionParamsKey) = Inr provisionParams \<and>
          fst (Services_List (dataOf config ReleaseNamespaceKey) [(InstanceLabel, instanceID)] st)
            = Inr services \<and> services \<noteq> [] \<and>
          fst (Secrets_List (dataOf config ReleaseNamespaceKey) [(InstanceLabel, instanceID)] st)
            = Inr secrets \<and> secrets \<noteq> [] \<and>
          providers c serviceID = Some provider \<longrightarrow>
          fst (Bind c instanceID serviceID bindParams st) =
            (case provider services (map_of provisionParams ++ map_of bindParams)
                    (secretsData secrets Map.empty) of
               Inl err \<Rightarrow> Inl (Wrapf err ''unable to bind instance %s'' [JString instanceID])
             | Inr creds \<Rightarrow> Inr (assignAll creds (secretsData secrets Map.empty))))"
proof -
  have m: "mergeParams provisionParams bindParams = map_of provisionParams ++ map_of bindParams"
    using assms by (simp add: mergeParams_def assignAll_eq)
  have b: "fst (Bind c instanceID serviceID bindParams st) =
            (case provider services (map_of provisionParams ++ map_of bindParams)
                    (secretsData secrets Map.empty) of
               Inl err \<Rightarrow> Inl (Wrapf err ''unable to bind instance %s'' [JString instanceID])
             | Inr creds \<Rightarrow> Inr (assignAll creds (secretsData secrets Map.empty)))"
    if h: "ConfigMapGet \<notin> unreachable st"
          "lookupConfigMap st (namespace c) instanceID = Some config"
          "json_Unmarshal c (dataOf config ProvisionParamsKey) = Inr provisionParams"
          "fst (Services_List (dataOf config ReleaseNamespaceKey) [(InstanceLabel, instanceID)] st)
            = Inr services" "services \<noteq> []"
          "fst (Secrets_List (dataOf config ReleaseNamespaceKey) [(InstanceLabel, instanceID)] st)
            = Inr secrets" "secrets \<noteq> []"
          "providers c serviceID = Some provider"
  proof -
    have l1: "Services_List (dataOf config ReleaseNamespaceKey) [(InstanceLabel, instanceID)] st = (Inr services, st)"
      using h(4) Services_List_state by (metis prod.collapse)
    have l2: "Secrets_List (dataOf config ReleaseNamespaceKey) [(InstanceLabel, instanceID)] st = (Inr secrets, st)"
      using h(6) Secrets_List_state by (metis prod.collapse)
    show ?thesis
      using ConfigMaps_Get_found[OF h(1,2)] h(3,5,7,8) l1 l2
      by (simp add: Bind_def Let_def m split: sum.splits)
  qed
  show ?thesis using m b by (auto simp: map_add_def split: option.splits)
qed

theorem Bind_params_precedence_witness:
  "mergeParams [(''a'', JNumber 1)] [(''a'', JNumber 2), (''b'', JNumber 3)]
     = [''a'' \<mapsto> JNumber 2, ''b'' \<mapsto> JNumber 3] \<and>
   fst (Bind exampleClient ''i-1'' ''pg'' [(''a'', JNumber 2), (''b'', JNumber 3)]
          provisionedCluster)
     = Inr [''password'' \<mapsto> JString ''secret'', ''a'' \<mapsto> JNumber 2, ''b'' \<mapsto> JNumber 3]"
proof -
  let ?config = "\<lparr>cm_Name = ''i-1'', cm_Namespace = ''minibroker'',
           cm_Labels = [''service-id'' \<mapsto> ''pg'', ''plan-id'' \<mapsto> ''pg-9-6''],
           cm_Data = [''provision-params'' \<mapsto> ''a=1'', ''service-id'' \<mapsto> ''pg'',
             ''plan-id'' \<mapsto> ''pg-9-6'', ''release'' \<mapsto> ''release-of-pg'',
             ''release-namespace'' \<mapsto> ''apps'',
             ''last-operation-name'' \<mapsto> ''provision-1f'',
             ''last-operation-state'' \<mapsto> ''succeeded'',
             ''last-operation-description'' \<mapsto> ''provisioned'']\<rparr>"
  let ?pp = "[(''a'', JNumber 1)]"
  let ?bp = "[(''a'', JNumber 2), (''b'', JNumber 3)]"
  have d1: "distinct (map fst ?pp)" by simp
  have d2: "distinct (map fst ?bp)" by simp
  have h1: "ConfigMapGet \<notin> unreachable provisionedCluster"
    by (simp add: provisioned_reachable)
  have h3: "json_Unmarshal exampleClient (dataOf ?config ProvisionParamsKey) = Inr ?pp"
    by (simp add: exampleClient_def exampleUnmarshal_def dataOf_def ProvisionParamsKey_def)
  have h4: "fst (Services_List (dataOf ?config ReleaseNamespaceKey)
                   [(InstanceLabel, ''i-1'')] provisionedCluster)
              = Inr (serviceObjects provisionedCluster)"
    by (simp add: Services_List_def provisionedCluster_def dataOf_def
        ReleaseNamespaceKey_def InstanceLabel_def inNamespace_def matchesSelector_def)
  have h5: "fst (Secrets_List (dataOf ?config ReleaseNamespaceKey)
                   [(InstanceLabel, ''i-1'')] provisionedCluster)
              = Inr (secretObjects provisionedCluster)"
    by (simp add: Secrets_List_def provisionedCluster_def dataOf_def
        ReleaseNamespaceKey_def InstanceLabel_def inNamespace_def matchesSelector_def)
  have h6: "serviceObjects provisionedCluster \<noteq> []" "secretObjects provisionedCluster \<noteq> []"
    by (simp_all add: provisionedCluster_def)
  have h7: "providers exampleClient ''pg'' = Some exampleProvider"
    by (simp add: exampleClient_def)
  have m: "map_of ?pp ++ map_of ?bp = [''a'' \<mapsto> JNumber 2, ''b'' \<mapsto> JNumber 3]"
    by (rule ext) simp
  have sd: "secretsData (secretObjects provisionedCluster) Map.empty
              = [''password'' \<mapsto> JString ''secret'']"
    by (simp add: provisionedCluster_def)
  have pr: "exampleProvider (serviceObjects provisionedCluster)
              [''a'' \<mapsto> JNumber 2, ''b'' \<mapsto> JNumber 3] [''password'' \<mapsto> JString ''secret'']
            = Inr [(''a'', JNumber 2), (''b'', JNumber 3)]"
    by (simp add: exampleProvider_def)
  note T = Bind_params_precedence[OF d1 d2, of provisionedCluster exampleClient "''i-1''" ?config
      "serviceObjects provisionedCluster" "secretObjects provisionedCluster" "''pg''" exampleProvider]
  have c1: "mergeParams ?pp ?bp = [''a'' \<mapsto> JNumber 2, ''b'' \<mapsto> JNumber 3]"
    using T[THEN conjunct1] unfolding m .
  have ante: "ConfigMapGet \<notin> unreachable provisionedCluster \<and>
          lookupConfigMap provisionedCluster (namespace exampleClient) ''i-1'' = Some ?config \<and>
          json_Unmarshal exampleClient (dataOf ?config ProvisionParamsKey) = Inr ?pp \<and>
          fst (Services_List (dataOf ?config ReleaseNamespaceKey) [(InstanceLabel, ''i-1'')]
                 provisionedCluster)
            = Inr (serviceObjects provisionedCluster) \<and>
          serviceObjects provisionedCluster \<noteq> [] \<and>
          fst (Secrets_List (dataOf ?config ReleaseNamespaceKey) [(InstanceLabel, ''i-1'')]
                 provisionedCluster)
            = Inr (secretObjects provisionedCluster) \<and>
          secretObjects provisionedCluster \<noteq> [] \<and>
          providers exampleClient ''pg'' = Some exampleProvider"
    using h1 provisioned_lookup_i1 h3 h4 h5 h6 h7 by (intro conjI)
  have c4: "fst (Bind exampleClient ''i-1'' ''pg'' ?bp provisionedCluster)
     = Inr (assignAll [(''a'', JNumber 2), (''b'', JNumber 3)]
              [''password'' \<mapsto> JString ''secret''])"
    using T[THEN conjunct2, THEN conjunct2, THEN conjunct2, THEN mp, OF ante]
    unfolding m sd pr by simp
  show ?thesis using c1 c4 by simp
qed

section \<open>Admission of a provision call\<close>











lemma Provision_task:
  assumes "Provision c instanceID serviceID planID ns acceptsIncomplete provisionParams int31 st
             = (r, st', Some t)"
  shows "t = ProvisionTask instanceID serviceID (decodeChartVersion planID serviceID) ns provisionParams"
  using assms
  by (auto simp: Provision_def Let_def split: sum.splits prod.splits if_splits option.splits)





section \<open>The version decoded from a plan ID\<close>

lemma replaceFrom_no_match:
  assumes "\<And>i. i < length s \<Longrightarrow> take (length old) (drop i s) \<noteq> old"
  shows "replaceFrom old new k s = s"
  using assms
proof (induction s)
  case Nil
  then show ?case by (simp add: replaceFrom.simps)
next
  case (Cons x s)
  have "take (length old) (x # s) \<noteq> old" using Cons.prems[of 0] by simp
  moreover have "replaceFrom old new k s = s"
  proof (rule Cons.IH)
    fix i assume "i < length s"
    then show "take (length old) (drop i s) \<noteq> old" using Cons.prems[of "Suc i"] by simp
  qed
  ultimately show ?case by (subst replaceFrom.simps) simp
qed

lemma replaceFrom_first:
  assumes "old \<noteq> []"
    and "\<And>i. i < length pre \<Longrightarrow> take (length old) (drop i (pre @ old @ post)) \<noteq> old"
  shows "replaceFrom old new (Some 1) (pre @ old @ post) = pre @ new @ post"
  using assms(2)
proof (induction pre)
  case Nil
  have "replaceFrom old new (Some 0) post = post" by (simp add: replaceFrom.simps)
  then show ?case using assms(1) by (subst replaceFrom.simps) simp
next
  case (Cons x pre)
  have nm: "take (length old) ((x # pre) @ old @ post) \<noteq> old" using Cons.prems[of 0] by simp
  have "replaceFrom old new (Some 1) (pre @ old @ post) = pre @ new @ post"
  proof (rule Cons.IH)
    fix i assume "i < length pre"
    then show "take (length old) (drop i (pre @ old @ post)) \<noteq> old"
      using Cons.prems[of "Suc i"] by simp
  qed
  then show ?case using nm assms(1) by (subst replaceFrom.simps) simp
qed

lemma replaceFrom_char:
  "replaceFrom [x] [y] None s = map (\<lambda>c. if c = x then y else c) s"
proof (induction s)
  case Nil
  then show ?case by (simp add: replaceFrom.simps)
next
  case (Cons a s)
  then show ?case by (subst replaceFrom.simps) (cases s; simp)
qed

lemma decodeChartVersion_eq:
  "decodeChartVersion planID serviceID =
     map (\<lambda>c. if c = CHR ''-'' then CHR ''.'' else c)
       (replaceFrom (serviceID @ ''-'') [] (Some 1) planID)"
  by (simp add: decodeChartVersion_def strings_Replace_def replaceFrom_char)

lemma toLowerChar_lowerAlnum: "lowerAlnum ch \<Longrightarrow> toLowerChar ch = ch"
  by (auto simp: lowerAlnum_def toLowerChar_def Let_def)

lemma lowerAlnum_iff:
  "lowerAlnum ch = (ch \<in> set ''abcdefghijklmnopqrstuvwxyz0123456789'')"
  by (cases ch) (simp add: lowerAlnum_def)

lemma cleanChar_lowerAlnum: "lowerAlnum ch \<Longrightarrow> cleanChar ch = ch"
  by (simp add: cleanChar_def)

lemma clean_lower_name:
  assumes "set name \<subseteq> set ''abcdefghijklmnopqrstuvwxyz0123456789''"
  shows "map cleanChar (map toLowerChar name) = name"
proof -
  have "cleanChar (toLowerChar ch) = ch" if "ch \<in> set name" for ch
  proof -
    from that assms have "lowerAlnum ch" unfolding lowerAlnum_iff by blast
    then show ?thesis by (simp add: toLowerChar_lowerAlnum cleanChar_lowerAlnum)
  qed
  then show ?thesis by (simp add: map_idI)
qed

lemma version_char:
  assumes "ch \<in> set ''0123456789.''"
  shows "toLowerChar ch = ch \<and> cleanChar ch = (if ch = CHR ''.'' then CHR ''-'' else ch)
         \<and> ch \<noteq> CHR ''-''"
  using assms by (auto simp: toLowerChar_def cleanChar_def lowerAlnum_def)

lemma clean_lower_version:
  assumes "set version \<subseteq> set ''0123456789.''"
  shows "map cleanChar (map toLowerChar version)
           = map (\<lambda>ch. if ch = CHR ''.'' then CHR ''-'' else ch) version"
  using assms version_char by (auto simp del: set_simps list.set)

lemma at_char: "cleanChar (toLowerChar CHR ''@'') = CHR ''-''"
  by (simp add: toLowerChar_def cleanChar_def lowerAlnum_def)

lemma plan_ID_clean:
  assumes "set name \<subseteq> set ''abcdefghijklmnopqrstuvwxyz0123456789''"
    and "set (AppVersion d) \<subseteq> set ''0123456789.''"
  shows "plan_ID (makePlan name d)
           = name @ ''-'' @ map (\<lambda>ch. if ch = CHR ''.'' then CHR ''-'' else ch) (AppVersion d)"
  using clean_lower_name[OF assms(1)] clean_lower_version[OF assms(2)] at_char
  by (simp add: makePlan_def Let_def ToLower_def cleaner_ReplaceAllString_def)

lemma decode_prefix:
  "decodeChartVersion (serviceID @ ''-'' @ rest) serviceID
     = map (\<lambda>ch. if ch = CHR ''-'' then CHR ''.'' else ch) rest"
proof -
  have "replaceFrom (serviceID @ ''-'') [] (Some 1) ([] @ (serviceID @ ''-'') @ rest) = [] @ [] @ rest"
    by (rule replaceFrom_first) simp_all
  then show ?thesis by (simp add: decodeChartVersion_eq)
qed

lemma decode_no_dash: "CHR ''-'' \<notin> set (decodeChartVersion planID serviceID)"
  by (auto simp: decodeChartVersion_eq)

text \<open>
  Claim C3, as amended. Provision recovers a version from the plan ID by the inverse of
  the plan-ID encoding: the first occurrence of \<open>serviceID + "-"\<close> is removed from the
  plan ID (nothing is removed when there is none), then every \<open>-\<close> that remains
  becomes \<open>.\<close>; the result is the version under which Provision asks the repository for
  the chart, on the synchronous path and in the goroutine of the asynchronous one.
  Round trip: for a package name over \<open>[a-z0-9]\<close> and an \<open>appVersion\<close> of digits and
  \<open>.\<close> only, decoding the plan ID that the Catalog Builder builds for the descriptor
  gives back its \<open>appVersion\<close>, the version of the packaged software (which is what the
  Catalog Builder encodes), not the descriptor's packaging \<open>version\<close>. An \<open>appVersion\<close>
  that contains \<open>-\<close> is never given back.
\<close>

theorem decodeChartVersion_inverse:
  "(planID = pre @ serviceID @ ''-'' @ post \<and>
    (\<forall>i < length pre. take (length (serviceID @ ''-'')) (drop i planID) \<noteq> serviceID @ ''-'') \<longrightarrow>
       decodeChartVersion planID serviceID
         = map (\<lambda>ch. if ch = CHR ''-'' then CHR ''.'' else ch) (pre @ post)) \<and>
   ((\<forall>i < length planID. take (length (serviceID @ ''-'')) (drop i planID) \<noteq> serviceID @ ''-'') \<longrightarrow>
       decodeChartVersion planID serviceID
         = map (\<lambda>ch. if ch = CHR ''-'' then CHR ''.'' else ch) planID) \<and>
   (set name \<subseteq> set ''abcdefghijklmnopqrstuvwxyz0123456789'' \<and>
    set (AppVersion d) \<subseteq> set ''0123456789.'' \<longrightarrow>
       decodeChartVersion (plan_ID (makePlan name d)) name = AppVersion d) \<and>
   (CHR ''-'' \<in> set (AppVersion d) \<longrightarrow>
       decodeChartVersion (plan_ID (makePlan name d)) name \<noteq> AppVersion d) \<and>
   (json_Marshal c provisionParams = Inr paramsJSON \<and>
    ConfigMapCreate \<notin> unreachable st \<and>
    lookupConfigMap st (namespace c) instanceID = None \<and>
    helm_GetChart c serviceID (decodeChartVersion planID serviceID) = Inl err \<longrightarrow>
       fst (Provision c instanceID serviceID planID ns False provisionParams int31 st) = Inl err) \<and>
   (Provision c instanceID serviceID planID ns acceptsIncomplete provisionParams int31 st
      = (r, st', Some t) \<longrightarrow>
       t = ProvisionTask instanceID serviceID (decodeChartVersion planID serviceID) ns
             provisionParams) \<and>
   (helm_GetChart c serviceID (decodeChartVersion planID serviceID) = Inl err \<longrightarrow>
       runTask c (ProvisionTask instanceID serviceID (decodeChartVersion planID serviceID) ns
                    provisionParams) st
         = provisionFail c instanceID st)"
proof (intro conjI impI)
  assume h: "planID = pre @ serviceID @ ''-'' @ post \<and>
    (\<forall>i < length pre. take (length (serviceID @ ''-'')) (drop i planID) \<noteq> serviceID @ ''-'')"
  have "replaceFrom (serviceID @ ''-'') [] (Some 1) (pre @ (serviceID @ ''-'') @ post)
          = pre @ [] @ post"
  proof (rule replaceFrom_first)
    show "serviceID @ ''-'' \<noteq> []" by simp
    fix i assume i: "i < length pre"
    from h i have "take (length (serviceID @ ''-'')) (drop i planID) \<noteq> serviceID @ ''-''"
      by blast
    moreover from h have "planID = pre @ (serviceID @ ''-'') @ post" by simp
    ultimately show "take (length (serviceID @ ''-'')) (drop i (pre @ (serviceID @ ''-'') @ post))
        \<noteq> serviceID @ ''-''" by metis
  qed
  with h show "decodeChartVersion planID serviceID
         = map (\<lambda>ch. if ch = CHR ''-'' then CHR ''.'' else ch) (pre @ post)"
    by (simp add: decodeChartVersion_eq)
next
  assume h: "\<forall>i < length planID. take (length (serviceID @ ''-'')) (drop i planID) \<noteq> serviceID @ ''-''"
  have "replaceFrom (serviceID @ ''-'') [] (Some 1) planID = planID"
    by (rule replaceFrom_no_match) (use h in blast)
  then show "decodeChartVersion planID serviceID
         = map (\<lambda>ch. if ch = CHR ''-'' then CHR ''.'' else ch) planID"
    by (simp add: decodeChartVersion_eq)
next
  assume h: "set name \<subseteq> set ''abcdefghijklmnopqrstuvwxyz0123456789'' \<and>
    set (AppVersion d) \<subseteq> set ''0123456789.''"
  have nd: "ch \<noteq> CHR ''-''" if "ch \<in> set (AppVersion d)" for ch
    using that h version_char by blast
  have "map (\<lambda>ch. if ch = CHR ''-'' then CHR ''.'' else ch)
          (map (\<lambda>ch. if ch = CHR ''.'' then CHR ''-'' else ch) (AppVersion d)) = AppVersion d"
    using nd by (simp add: map_idI)
  then show "decodeChartVersion (plan_ID (makePlan name d)) name = AppVersion d"
    using h by (simp only: plan_ID_clean decode_prefix)
next
  assume "CHR ''-'' \<in> set (AppVersion d)"
  then show "decodeChartVersion (plan_ID (makePlan name d)) name \<noteq> AppVersion d"
    using decode_no_dash[of "plan_ID (makePlan name d)" name] by auto
next
  assume "json_Marshal c provisionParams = Inr paramsJSON \<and>
    ConfigMapCreate \<notin> unreachable st \<and>
    lookupConfigMap st (namespace c) instanceID = None \<and>
    helm_GetChart c serviceID (decodeChartVersion planID serviceID) = Inl err"
  then show "fst (Provision c instanceID serviceID planID ns False provisionParams int31 st) = Inl err"
    by (simp add: Provision_def Let_def ConfigMaps_Create_def installRelease_def)
next
  assume "Provision c instanceID serviceID planID ns acceptsIncomplete provisionParams int31 st
      = (r, st', Some t)"
  then show "t = ProvisionTask instanceID serviceID (decodeChartVersion planID serviceID) ns
             provisionParams"
    by (rule Provision_task)
next
  assume "helm_GetChart c serviceID (decodeChartVersion planID serviceID) = Inl err"
  then show "runTask c (ProvisionTask instanceID serviceID (decodeChartVersion planID serviceID) ns
                    provisionParams) st
         = provisionFail c instanceID st"
    by (simp add: provisionInBackground_def installRelease_def)
qed

theorem decodeChartVersion_inverse_witness:
  "decodeChartVersion ''pg-9-6'' ''pg'' = ''9.6'' \<and>
   decodeChartVersion (plan_ID (makePlan ''pg'' pg_1_1_0)) ''pg'' = ''9.6'' \<and>
   decodeChartVersion (plan_ID (makePlan ''pg'' (pg_1_1_0\<lparr>AppVersion := ''9.6-rc1''\<rparr>))) ''pg''
     \<noteq> ''9.6-rc1'' \<and>
   fst (Provision exampleClient ''i-2'' ''pg'' ''pg-7-0'' ''apps'' False [] 5 emptyCluster)
     = Inl (External ''chart not found'') \<and>
   snd (snd (Provision exampleClient ''i-2'' ''pg'' ''pg-7-0'' ''apps'' True [] 5 emptyCluster))
     = Some (ProvisionTask ''i-2'' ''pg'' ''7.0'' ''apps'' []) \<and>
   runTask exampleClient (ProvisionTask ''i-2'' ''pg'' ''7.0'' ''apps'' []) emptyCluster
     = provisionFail exampleClient ''i-2'' emptyCluster \<and>
   decodeChartVersion ''pg-7-0'' ''pg'' = ''7.0''"
proof -
  have a1: "''pg-9-6'' = [] @ ''pg'' @ ''-'' @ ''9-6'' \<and>
    (\<forall>i < length ([]::string). take (length (''pg'' @ ''-'')) (drop i ''pg-9-6'') \<noteq> ''pg'' @ ''-'')"
    by simp
  have a3: "set ''pg'' \<subseteq> set ''abcdefghijklmnopqrstuvwxyz0123456789'' \<and>
    set (AppVersion pg_1_1_0) \<subseteq> set ''0123456789.''"
    by (simp add: pg_1_1_0_def)
  have a4: "CHR ''-'' \<in> set (AppVersion (pg_1_1_0\<lparr>AppVersion := ''9.6-rc1''\<rparr>))"
    by simp
  have d5: "decodeChartVersion ''pg-7-0'' ''pg'' = ''7.0''"
    using decode_prefix[of "''pg''" "''7-0''"] by simp
  have a5: "json_Marshal exampleClient [] = Inr ''null'' \<and>
    ConfigMapCreate \<notin> unreachable emptyCluster \<and>
    lookupConfigMap emptyCluster (namespace exampleClient) ''i-2'' = None \<and>
    helm_GetChart exampleClient ''pg'' (decodeChartVersion ''pg-7-0'' ''pg'')
      = Inl (External ''chart not found'')"
    unfolding d5
    by (simp add: exampleClient_def exampleMarshal_def emptyCluster_def lookupConfigMap_def
        exampleGetChart_def pg_1_0_0_def pg_1_1_0_def pg_2_0_0_def)
  note T1 = decodeChartVersion_inverse[of "''pg-9-6''" "[]" "''pg''" "''9-6''" "''pg''" pg_1_1_0
      exampleClient "[]" "''null''" emptyCluster "''i-2''" "External ''chart not found''" "''apps''" 5]
  note T2 = decodeChartVersion_inverse[of "''pg-7-0''" "[]" "''pg''" "''7-0''" "''pg''"
      "pg_1_1_0\<lparr>AppVersion := ''9.6-rc1''\<rparr>"
      exampleClient "[]" "''null''" emptyCluster "''i-2''" "External ''chart not found''" "''apps''" 5]
  have c1: "decodeChartVersion ''pg-9-6'' ''pg'' = ''9.6''"
    using T1[THEN conjunct1, THEN mp, OF a1] by simp
  have c3: "decodeChartVersion (plan_ID (makePlan ''pg'' pg_1_1_0)) ''pg'' = ''9.6''"
    using T1[THEN conjunct2, THEN conjunct2, THEN conjunct1, THEN mp, OF a3]
    by (simp add: pg_1_1_0_def)
  have c4: "decodeChartVersion (plan_ID (makePlan ''pg'' (pg_1_1_0\<lparr>AppVersion := ''9.6-rc1''\<rparr>))) ''pg''
     \<noteq> ''9.6-rc1''"
    using T2[THEN conjunct2, THEN conjunct2, THEN conjunct2, THEN conjunct1, THEN mp, OF a4]
    by simp
  have c5: "fst (Provision exampleClient ''i-2'' ''pg'' ''pg-7-0'' ''apps'' False [] 5 emptyCluster)
     = Inl (External ''chart not found'')"
    using T2[THEN conjunct2, THEN conjunct2, THEN conjunct2, THEN conjunct2, THEN conjunct1,
        THEN mp, OF a5] .
  let ?P = "Provision exampleClient ''i-2'' ''pg'' ''pg-7-0'' ''apps'' True [] 5 emptyCluster"
  let ?t = "ProvisionTask ''i-2'' ''pg'' ''7.0'' ''apps'' []"
  have c6: "snd (snd ?P) = Some ?t"
    by code_simp
  have a6: "?P = (fst ?P, fst (snd ?P), Some ?t)"
    using c6 by (metis prod.collapse)
  note T3 = decodeChartVersion_inverse[of "''pg-7-0''" "[]" "''pg''" "''7-0''" "''pg''"
      pg_1_1_0 exampleClient "[]" "''null''" emptyCluster "''i-2''"
      "External ''chart not found''" "''apps''" 5 True "fst ?P" "fst (snd ?P)" ?t]
  have "?t = ProvisionTask ''i-2'' ''pg'' (decodeChartVersion ''pg-7-0'' ''pg'') ''apps'' []"
    using T3[THEN conjunct2, THEN conjunct2, THEN conjunct2, THEN conjunct2, THEN conjunct2,
        THEN conjunct1, THEN mp, OF a6] .
  then have c8: "decodeChartVersion ''pg-7-0'' ''pg'' = ''7.0''"
    by simp
  have c7: "runTask exampleClient (ProvisionTask ''i-2'' ''pg'' ''7.0'' ''apps'' []) emptyCluster
     = provisionFail exampleClient ''i-2'' emptyCluster"
    using T3[THEN conjunct2, THEN conjunct2, THEN conjunct2, THEN conjunct2, THEN conjunct2,
        THEN conjunct2, THEN mp, OF a5[THEN conjunct2, THEN conjunct2, THEN conjunct2]]
    unfolding d5 .
  show ?thesis using c1 c3 c4 c5 c6 c7 c8 by (intro conjI)
qed

theorem decodeChartVersion_package_version_counterexample:
  "set (Name pg_1_1_0) \<subseteq> set ''abcdefghijklmnopqrstuvwxyz0123456789'' \<and>
   set (Version pg_1_1_0) \<subseteq> set ''0123456789.'' \<and>
   Version pg_1_1_0 = ''1.1.0'' \<and>
   plan_ID (makePlan (Name pg_1_1_0) pg_1_1_0) = ''pg-9-6'' \<and>
   decodeChartVersion (plan_ID (makePlan (Name pg_1_1_0) pg_1_1_0)) (Name pg_1_1_0) = ''9.6'' \<and>
   decodeChartVersion (plan_ID (makePlan (Name pg_1_1_0) pg_1_1_0)) (Name pg_1_1_0)
     \<noteq> Version pg_1_1_0"
proof -
  have n: "Name pg_1_1_0 = ''pg''" and v: "Version pg_1_1_0 = ''1.1.0''"
    by (simp_all add: pg_1_1_0_def)
  have p: "plan_ID (makePlan ''pg'' pg_1_1_0) = ''pg-9-6''" by code_simp
  have d: "decodeChartVersion ''pg-9-6'' ''pg'' = ''9.6''"
    using decode_prefix[of "''pg''" "''9-6''"] by simp
  show ?thesis unfolding n v p d by simp
qed


section \<open>Plans of a catalog entry\<close>

lemma plansLoop_eq: "plansLoop chart r plans = plans @ map (\<lambda>(a, d). makePlan chart d) r"
  by (induction r arbitrary: plans) auto

lemma appVersionsLoop_inv:
  assumes tr: "\<And>x y z. semver_GreaterThan c x y \<Longrightarrow> semver_GreaterThan c y z \<Longrightarrow> semver_GreaterThan c x z"
    and irr: "\<And>x. \<not> semver_GreaterThan c x x"
    and "distinct (map fst acc)"
    and "\<And>a d. map_of acc a = Some d \<Longrightarrow> AppVersion d = a \<and> (AppVersion d \<noteq> [] \<and> semver_NewVersion c (Version d) \<noteq> None) \<and> d \<in> S \<and> (\<forall>d' \<in> S. AppVersion d' = AppVersion d \<longrightarrow> (\<forall>v v'. semver_NewVersion c (Version d) = Some v \<longrightarrow> semver_NewVersion c (Version d') = Some v' \<longrightarrow> \<not> semver_GreaterThan c v' v))"
    and "\<And>d. d \<in> S \<Longrightarrow> (AppVersion d \<noteq> [] \<and> semver_NewVersion c (Version d) \<noteq> None) \<Longrightarrow> AppVersion d \<in> dom (map_of acc)"
  shows "\<exists>r. appVersionsLoop c cvs acc = Inr r \<and> distinct (map fst r) \<and>
      (\<forall>a d. map_of r a = Some d \<longrightarrow> AppVersion d = a \<and> (AppVersion d \<noteq> [] \<and> semver_NewVersion c (Version d) \<noteq> None) \<and> d \<in> S \<union> set cvs \<and> (\<forall>d' \<in> S \<union> set cvs. AppVersion d' = AppVersion d \<longrightarrow> (\<forall>v v'. semver_NewVersion c (Version d) = Some v \<longrightarrow> semver_NewVersion c (Version d') = Some v' \<longrightarrow> \<not> semver_GreaterThan c v' v))) \<and>
      (\<forall>d \<in> S \<union> set cvs. (AppVersion d \<noteq> [] \<and> semver_NewVersion c (Version d) \<noteq> None) \<longrightarrow> AppVersion d \<in> dom (map_of r))"
  using assms(3-)
proof (induction cvs arbitrary: acc S)
  case Nil
  then show ?case by auto
next
  case (Cons x cvs)
  have goal: "\<exists>r. appVersionsLoop c (x # cvs) acc = Inr r \<and> distinct (map fst r) \<and>
      (\<forall>a d. map_of r a = Some d \<longrightarrow> AppVersion d = a \<and> (AppVersion d \<noteq> [] \<and> semver_NewVersion c (Version d) \<noteq> None) \<and> d \<in> S \<union> set (x # cvs) \<and> (\<forall>d' \<in> S \<union> set (x # cvs). AppVersion d' = AppVersion d \<longrightarrow> (\<forall>v v'. semver_NewVersion c (Version d) = Some v \<longrightarrow> semver_NewVersion c (Version d') = Some v' \<longrightarrow> \<not> semver_GreaterThan c v' v))) \<and>
      (\<forall>d \<in> S \<union> set (x # cvs). (AppVersion d \<noteq> [] \<and> semver_NewVersion c (Version d) \<noteq> None) \<longrightarrow> AppVersion d \<in> dom (map_of r))"
    if step: "appVersionsLoop c (x # cvs) acc = appVersionsLoop c cvs acc'"
      and d: "distinct (map fst acc')"
      and i: "\<And>a d. map_of acc' a = Some d \<Longrightarrow> AppVersion d = a \<and> (AppVersion d \<noteq> [] \<and> semver_NewVersion c (Version d) \<noteq> None) \<and> d \<in> insert x S \<and> (\<forall>d' \<in> insert x S. AppVersion d' = AppVersion d \<longrightarrow> (\<forall>v v'. semver_NewVersion c (Version d) = Some v \<longrightarrow> semver_NewVersion c (Version d') = Some v' \<longrightarrow> \<not> semver_GreaterThan c v' v))"
      and j: "\<And>d. d \<in> insert x S \<Longrightarrow> (AppVersion d \<noteq> [] \<and> semver_NewVersion c (Version d) \<noteq> None) \<Longrightarrow> AppVersion d \<in> dom (map_of acc')"
    for acc'
    using Cons.IH[of acc' "insert x S", OF d i j] unfolding step by simp
  show ?case
  proof (cases "(AppVersion x \<noteq> [] \<and> semver_NewVersion c (Version x) \<noteq> None)")
    case False
    show ?thesis
    proof (rule goal[of acc])
      show "appVersionsLoop c (x # cvs) acc = appVersionsLoop c cvs acc"
        using False by auto
      show "distinct (map fst acc)" by fact
      fix a d assume "map_of acc a = Some d"
      from Cons.prems(2)[OF this] False
      show "AppVersion d = a \<and> (AppVersion d \<noteq> [] \<and> semver_NewVersion c (Version d) \<noteq> None) \<and> d \<in> insert x S \<and> (\<forall>d' \<in> insert x S. AppVersion d' = AppVersion d \<longrightarrow> (\<forall>v v'. semver_NewVersion c (Version d) = Some v \<longrightarrow> semver_NewVersion c (Version d') = Some v' \<longrightarrow> \<not> semver_GreaterThan c v' v))"
        by auto
    next
      fix d assume "d \<in> insert x S" "(AppVersion d \<noteq> [] \<and> semver_NewVersion c (Version d) \<noteq> None)"
      with False Cons.prems(3) show "AppVersion d \<in> dom (map_of acc)" by auto
    qed
  next
    case True
    then obtain curV where curV: "semver_NewVersion c (Version x) = Some curV" and ne: "AppVersion x \<noteq> []"
      by auto
    let ?upd = "AList.update (AppVersion x) x acc"
    have updJ: "AppVersion d \<in> dom (map_of ?upd)" if "d \<in> insert x S" "(AppVersion d \<noteq> [] \<and> semver_NewVersion c (Version d) \<noteq> None)" for d
      using that Cons.prems(3)[of d] by (auto simp: update_conv')
    have updCases: "(a = AppVersion x \<and> d = x) \<or> (a \<noteq> AppVersion x \<and> map_of acc a = Some d)"
      if "map_of ?upd a = Some d" for a d
      using that by (auto simp: update_conv' split: if_splits)
    have other: "AppVersion d = a \<and> (AppVersion d \<noteq> [] \<and> semver_NewVersion c (Version d) \<noteq> None) \<and> d \<in> insert x S \<and> (\<forall>d' \<in> insert x S. AppVersion d' = AppVersion d \<longrightarrow> (\<forall>v v'. semver_NewVersion c (Version d) = Some v \<longrightarrow> semver_NewVersion c (Version d') = Some v' \<longrightarrow> \<not> semver_GreaterThan c v' v))"
      if "a \<noteq> AppVersion x" "map_of acc a = Some d" for a d
      using Cons.prems(2)[OF that(2)] that(1) by auto
    show ?thesis
    proof (cases "map_of acc (AppVersion x)")
      case None
      have noS: "\<not> (AppVersion d' \<noteq> [] \<and> semver_NewVersion c (Version d') \<noteq> None)" if "d' \<in> S" "AppVersion d' = AppVersion x" for d'
        using Cons.prems(3)[of d'] None that by (metis domIff)
      show ?thesis
      proof (rule goal[of ?upd])
        show "appVersionsLoop c (x # cvs) acc = appVersionsLoop c cvs ?upd"
          using None curV ne by simp
        show "distinct (map fst ?upd)" using Cons.prems(1) by (simp add: distinct_update)
        fix a d assume "map_of ?upd a = Some d"
        from updCases[OF this]
        show "AppVersion d = a \<and> (AppVersion d \<noteq> [] \<and> semver_NewVersion c (Version d) \<noteq> None) \<and> d \<in> insert x S \<and> (\<forall>d' \<in> insert x S. AppVersion d' = AppVersion d \<longrightarrow> (\<forall>v v'. semver_NewVersion c (Version d) = Some v \<longrightarrow> semver_NewVersion c (Version d') = Some v' \<longrightarrow> \<not> semver_GreaterThan c v' v))"
        proof
          assume "a = AppVersion x \<and> d = x"
          then show ?thesis using True noS irr curV by auto
        next
          assume "a \<noteq> AppVersion x \<and> map_of acc a = Some d"
          then show ?thesis using other by blast
        qed
      next
        fix d assume "d \<in> insert x S" "(AppVersion d \<noteq> [] \<and> semver_NewVersion c (Version d) \<noteq> None)"
        then show "AppVersion d \<in> dom (map_of ?upd)" by (rule updJ)
      qed
    next
      case (Some currentMax)
      from Cons.prems(2)[OF Some] have cm: "AppVersion currentMax = AppVersion x" "(AppVersion currentMax \<noteq> [] \<and> semver_NewVersion c (Version currentMax) \<noteq> None)"
        "currentMax \<in> S" "(\<forall>d' \<in> S. AppVersion d' = AppVersion currentMax \<longrightarrow> (\<forall>v v'. semver_NewVersion c (Version currentMax) = Some v \<longrightarrow> semver_NewVersion c (Version d') = Some v' \<longrightarrow> \<not> semver_GreaterThan c v' v))" by auto
      then obtain maxV where maxV: "semver_NewVersion c (Version currentMax) = Some maxV"
        by auto
      have cmDom: "\<not> semver_GreaterThan c v' maxV"
        if "d' \<in> S" "AppVersion d' = AppVersion x" "semver_NewVersion c (Version d') = Some v'" for d' v'
        using cm(4) cm(1) maxV that by auto
      show ?thesis
      proof (cases "semver_GreaterThan c curV maxV")
        case gt: True
        have domx: "(\<forall>d' \<in> insert x S. AppVersion d' = AppVersion x \<longrightarrow> (\<forall>v v'. semver_NewVersion c (Version x) = Some v \<longrightarrow> semver_NewVersion c (Version d') = Some v' \<longrightarrow> \<not> semver_GreaterThan c v' v))"
        proof (intro ballI impI allI)
          fix d' v v'
          assume d': "d' \<in> insert x S" "AppVersion d' = AppVersion x"
            and v: "semver_NewVersion c (Version x) = Some v" "semver_NewVersion c (Version d') = Some v'"
          have vv: "v = curV" using v curV by simp
          show "\<not> semver_GreaterThan c v' v"
          proof (cases "d' = x")
            case True then show ?thesis using v irr by auto
          next
            case False
            then have "d' \<in> S" using d' by auto
            from cmDom[OF this d'(2) v(2)] show ?thesis using tr[of v' curV maxV] gt vv by auto
          qed
        qed
        show ?thesis
        proof (rule goal[of ?upd])
          show "appVersionsLoop c (x # cvs) acc = appVersionsLoop c cvs ?upd"
            using Some curV ne maxV gt by simp
          show "distinct (map fst ?upd)" using Cons.prems(1) by (simp add: distinct_update)
          fix a d assume "map_of ?upd a = Some d"
          from updCases[OF this]
          show "AppVersion d = a \<and> (AppVersion d \<noteq> [] \<and> semver_NewVersion c (Version d) \<noteq> None) \<and> d \<in> insert x S \<and> (\<forall>d' \<in> insert x S. AppVersion d' = AppVersion d \<longrightarrow> (\<forall>v v'. semver_NewVersion c (Version d) = Some v \<longrightarrow> semver_NewVersion c (Version d') = Some v' \<longrightarrow> \<not> semver_GreaterThan c v' v))"
          proof
            assume e: "a = AppVersion x \<and> d = x"
            then show ?thesis using domx True by simp
          next
            assume "a \<noteq> AppVersion x \<and> map_of acc a = Some d"
            then show ?thesis using other by blast
          qed
        next
          fix d assume "d \<in> insert x S" "(AppVersion d \<noteq> [] \<and> semver_NewVersion c (Version d) \<noteq> None)"
          then show "AppVersion d \<in> dom (map_of ?upd)" by (rule updJ)
        qed
      next
        case ngt: False
        show ?thesis
        proof (rule goal[of acc])
          show "appVersionsLoop c (x # cvs) acc = appVersionsLoop c cvs acc"
            using Some curV ne maxV ngt by simp
          show "distinct (map fst acc)" by fact
          fix a d assume m: "map_of acc a = Some d"
          show "AppVersion d = a \<and> (AppVersion d \<noteq> [] \<and> semver_NewVersion c (Version d) \<noteq> None) \<and> d \<in> insert x S \<and> (\<forall>d' \<in> insert x S. AppVersion d' = AppVersion d \<longrightarrow> (\<forall>v v'. semver_NewVersion c (Version d) = Some v \<longrightarrow> semver_NewVersion c (Version d') = Some v' \<longrightarrow> \<not> semver_GreaterThan c v' v))"
          proof (cases "a = AppVersion x")
            case True
            then have "d = currentMax" using m Some by simp
            then show ?thesis using cm ngt curV maxV True by auto
          next
            case False
            then show ?thesis using other m by blast
          qed
        next
          fix d assume "d \<in> insert x S" "(AppVersion d \<noteq> [] \<and> semver_NewVersion c (Version d) \<noteq> None)"
          with Cons.prems(3) Some show "AppVersion d \<in> dom (map_of acc)" by auto
        qed
      qed
    qed
  qed
qed

lemma appVersionsLoop_total:
  assumes "\<And>a d. map_of acc a = Some d \<Longrightarrow> semver_NewVersion c (Version d) \<noteq> None"
  shows "\<exists>r. appVersionsLoop c cvs acc = Inr r"
  using assms
proof (induction cvs arbitrary: acc)
  case Nil
  then show ?case by simp
next
  case (Cons x cvs)
  have keep: "\<exists>r. appVersionsLoop c cvs acc = Inr r"
    by (rule Cons.IH) (rule Cons.prems)
  have upd: "\<exists>r. appVersionsLoop c cvs (AList.update (AppVersion x) x acc) = Inr r"
    if "semver_NewVersion c (Version x) \<noteq> None"
  proof (rule Cons.IH)
    fix a d assume "map_of (AList.update (AppVersion x) x acc) a = Some d"
    then show "semver_NewVersion c (Version d) \<noteq> None"
      using that Cons.prems[of a d] by (auto simp: update_conv' split: if_splits)
  qed
  show ?case
    using keep upd Cons.prems[of "AppVersion x"]
    by (auto split: option.splits)
qed

lemma servicesLoop_total: "\<exists>services. servicesLoop c charts acc = Inr services"
proof (induction charts arbitrary: acc)
  case Nil
  then show ?case by simp
next
  case (Cons p charts)
  obtain chart cvs where p: "p = (chart, cvs)" by (cases p)
  obtain r where r: "appVersionsLoop c cvs [] = Inr r"
    using appVersionsLoop_total[of "[]" c cvs] by auto
  show ?case using Cons.IH r unfolding p by (simp add: Let_def)
qed

lemma servicesLoop_acc: "servicesLoop c charts acc = Inr services \<Longrightarrow> set acc \<subseteq> set services"
proof (induction charts arbitrary: acc)
  case Nil
  then show ?case by simp
next
  case (Cons p charts)
  obtain chart cvs where p: "p = (chart, cvs)" by (cases p)
  show ?case using Cons.prems Cons.IH unfolding p
    by (fastforce simp: Let_def split: if_splits sum.splits)
qed

lemma servicesLoop_complete:
  assumes "servicesLoop c charts acc = Inr services" "(chart, cvs) \<in> set charts"
    "\<not> (providers c chart = None \<and> serviceCatalogEnabledOnly c)"
    "appVersionsLoop c cvs [] = Inr r" "r \<noteq> []"
  shows "(newService chart (getTagIntersection cvs))\<lparr>svc_Plans := map (\<lambda>(a, d). makePlan chart d) r\<rparr>
           \<in> set services"
  using assms(1,2)
proof (induction charts arbitrary: acc)
  case Nil
  then show ?case by simp
next
  case (Cons p charts)
  obtain chart' cvs' where p: "p = (chart', cvs')" by (cases p)
  show ?case
  proof (cases "p = (chart, cvs)")
    case True
    let ?svc = "(newService chart (getTagIntersection cvs))\<lparr>svc_Plans := map (\<lambda>(a, d). makePlan chart d) r\<rparr>"
    have listed: "(providers c chart = None \<and> serviceCatalogEnabledOnly c) = False"
      using assms(3) by simp
    have "servicesLoop c (p # charts) acc = servicesLoop c charts (acc @ [?svc])"
      unfolding True using assms(4,5) by (simp add: listed Let_def plansLoop_eq newService_def)
    with Cons.prems(1) have "set (acc @ [?svc]) \<subseteq> set services"
      using servicesLoop_acc by metis
    then show ?thesis by simp
  next
    case False
    with Cons.prems(2) have mem: "(chart, cvs) \<in> set charts" by auto
    from Cons.prems(1) obtain acc' where "servicesLoop c charts acc' = Inr services"
      unfolding p by (auto simp: Let_def split: if_splits sum.splits)
    from Cons.IH[OF this mem] show ?thesis .
  qed
qed

lemma servicesLoop_sound:
  assumes "servicesLoop c charts acc = Inr services" "svc \<in> set services"
  shows "svc \<in> set acc \<or> (\<exists>chart cvs r. (chart, cvs) \<in> set charts \<and>
           \<not> (providers c chart = None \<and> serviceCatalogEnabledOnly c) \<and>
           appVersionsLoop c cvs [] = Inr r \<and> r \<noteq> [] \<and>
           svc = (newService chart (getTagIntersection cvs))\<lparr>svc_Plans := map (\<lambda>(a, d). makePlan chart d) r\<rparr>)"
  using assms
proof (induction charts arbitrary: acc)
  case Nil
  then show ?case by simp
next
  case (Cons p charts)
  obtain chart cvs where p: "p = (chart, cvs)" by (cases p)
  show ?case
  proof (cases "providers c chart = None \<and> serviceCatalogEnabledOnly c")
    case True
    then have "servicesLoop c charts acc = Inr services" using Cons.prems(1) unfolding p by simp
    from Cons.IH[OF this Cons.prems(2)] show ?thesis by auto
  next
    case False
    then have listed: "(providers c chart = None \<and> serviceCatalogEnabledOnly c) = False"
      by simp
    obtain r where r: "appVersionsLoop c cvs [] = Inr r"
      using appVersionsLoop_total[of "[]" c cvs] by auto
    let ?svc = "(newService chart (getTagIntersection cvs))\<lparr>svc_Plans := map (\<lambda>(a, d). makePlan chart d) r\<rparr>"
    show ?thesis
    proof (cases "r = []")
      case True
      then have "servicesLoop c charts acc = Inr services"
        using Cons.prems(1) r unfolding p by (simp add: listed Let_def plansLoop_eq newService_def)
      from Cons.IH[OF this Cons.prems(2)] show ?thesis by auto
    next
      case ne: False
      then have "servicesLoop c charts (acc @ [?svc]) = Inr services"
        using Cons.prems(1) r unfolding p by (simp add: listed Let_def plansLoop_eq newService_def)
      from Cons.IH[OF this Cons.prems(2)] show ?thesis
      proof
        assume "svc \<in> set (acc @ [?svc])"
        then show ?thesis using False r ne unfolding p by auto
      next
        assume "\<exists>chart cvs r. (chart, cvs) \<in> set charts \<and>
           \<not> (providers c chart = None \<and> serviceCatalogEnabledOnly c) \<and>
           appVersionsLoop c cvs [] = Inr r \<and> r \<noteq> [] \<and>
           svc = (newService chart (getTagIntersection cvs))\<lparr>svc_Plans := map (\<lambda>(a, d). makePlan chart d) r\<rparr>"
        then show ?thesis by auto
      qed
    qed
  qed
qed

lemma plainGreaterThan_trans:
  "\<forall>x y z. plainGreaterThan x y \<and> plainGreaterThan y z \<longrightarrow> plainGreaterThan x z"
  by auto

lemma plainGreaterThan_irrefl: "\<forall>x. \<not> plainGreaterThan x x"
  by auto

lemma plainVersion_examples:
  "plainVersion ''1.0.0'' = Some (1, 0, 0)" "plainVersion ''1.1.0'' = Some (1, 1, 0)"
  "plainVersion ''2.0.0'' = Some (2, 0, 0)" "plainVersion ''4.0.1'' = Some (4, 0, 1)"
  by (simp_all add: plainVersion_def decimal_def isDigit_def)

lemma example_retained:
  "appVersionsLoop exampleClient [pg_1_0_0, pg_1_1_0, pg_2_0_0] []
     = Inr [(''9.6'', pg_1_1_0), (''10.1'', pg_2_0_0)]"
  by (simp add: exampleClient_def pg_1_0_0_def pg_1_1_0_def pg_2_0_0_def plainVersion_examples)

lemma example_services:
  "ListServices exampleClient =
     Inr [\<lparr>svc_ID = ''pg'', svc_Name = ''pg'', svc_Description = ''Helm Chart for pg'',
           svc_Bindable = True,
           svc_Plans =
             [\<lparr>plan_ID = ''pg-9-6'', plan_Name = ''9-6'',
               plan_Description = ''pg 9.6, second packaging'', plan_Free = Some True\<rparr>,
              \<lparr>plan_ID = ''pg-10-1'', plan_Name = ''10-1'',
               plan_Description = ''pg 10.1'', plan_Free = Some True\<rparr>],
           svc_Tags = [''database'']\<rparr>]"
  by code_simp

lemma mixedCase_services:
  "ListServices mixedCaseClient =
     Inr [\<lparr>svc_ID = ''Redis'', svc_Name = ''Redis'', svc_Description = ''Helm Chart for Redis'',
           svc_Bindable = True,
           svc_Plans =
             [\<lparr>plan_ID = ''redis-5-0-rc1'', plan_Name = ''5-0---1'',
               plan_Description = ''Redis release candidate'', plan_Free = Some True\<rparr>],
           svc_Tags = [''cache'']\<rparr>]"
  by code_simp

lemma mixedCase_entry: "ListServices mixedCaseClient = Inr [redisEntry]"
  unfolding redisEntry_def by (rule mixedCase_services)

lemma example_plans:
  "makePlan ''pg'' pg_1_1_0 =
     \<lparr>plan_ID = ''pg-9-6'', plan_Name = ''9-6'',
      plan_Description = ''pg 9.6, second packaging'', plan_Free = Some True\<rparr>"
  "makePlan ''pg'' pg_2_0_0 =
     \<lparr>plan_ID = ''pg-10-1'', plan_Name = ''10-1'',
      plan_Description = ''pg 10.1'', plan_Free = Some True\<rparr>"
  by code_simp+

text \<open>
  Claim C2. For every package that is listed, the Catalog Builder emits exactly one
  plan per distinct non-empty \<open>appVersion\<close> that has a descriptor with a valid semantic
  version, and builds it from a descriptor of that \<open>appVersion\<close> whose version no other
  valid descriptor of the same \<open>appVersion\<close> exceeds; descriptors with an empty
  \<open>appVersion\<close> or a version that does not parse are skipped and the listing goes on.
  The comparison of the version library is transitive and irreflexive; the names of the
  packages are the keys of a Go map. For the three descriptors of \<open>pg\<close> this gives two
  plans: \<open>9.6\<close> from the descriptor \<open>1.1.0\<close> and \<open>10.1\<close> from \<open>2.0.0\<close>.
\<close>

theorem ListServices_one_plan_per_appVersion:
  assumes trans: "\<forall>x y z. semver_GreaterThan c x y \<and> semver_GreaterThan c y z
                      \<longrightarrow> semver_GreaterThan c x z"
    and irrefl: "\<forall>x. \<not> semver_GreaterThan c x x"
    and charts: "helm_ListCharts c = Inr charts" "distinct (map fst charts)"
    and chart: "(chart, chartVersions) \<in> set charts"
    and listed: "\<not> (providers c chart = None \<and> serviceCatalogEnabledOnly c)"
  shows "\<exists>services retained.
      ListServices c = Inr services \<and>
      appVersionsLoop c chartVersions [] = Inr retained \<and>
      distinct (map fst retained) \<and>
      fst ` set retained =
        {AppVersion d |d. d \<in> set chartVersions \<and> AppVersion d \<noteq> [] \<and>
                          semver_NewVersion c (Version d) \<noteq> None} \<and>
      (\<forall>(a, d) \<in> set retained.
          d \<in> set chartVersions \<and> AppVersion d = a \<and>
          (\<exists>v. semver_NewVersion c (Version d) = Some v \<and>
               (\<forall>d' \<in> set chartVersions. \<forall>v'.
                   AppVersion d' = a \<and> semver_NewVersion c (Version d') = Some v'
                   \<longrightarrow> \<not> semver_GreaterThan c v' v))) \<and>
      (\<forall>svc \<in> set services. svc_ID svc = chart \<longrightarrow>
          svc_Plans svc = map (\<lambda>(a, d). makePlan chart d) retained) \<and>
      (retained \<noteq> [] \<longrightarrow> (\<exists>svc \<in> set services. svc_ID svc = chart))"
proof -
  have tr: "\<And>x y z. semver_GreaterThan c x y \<Longrightarrow> semver_GreaterThan c y z \<Longrightarrow> semver_GreaterThan c x z"
    using trans by blast
  have irr: "\<And>x. \<not> semver_GreaterThan c x x" using irrefl by blast
  have "\<exists>r. appVersionsLoop c chartVersions [] = Inr r \<and> distinct (map fst r) \<and>
      (\<forall>a d. map_of r a = Some d \<longrightarrow> AppVersion d = a \<and>
         (AppVersion d \<noteq> [] \<and> semver_NewVersion c (Version d) \<noteq> None) \<and>
         d \<in> {} \<union> set chartVersions \<and>
         (\<forall>d' \<in> {} \<union> set chartVersions. AppVersion d' = AppVersion d \<longrightarrow>
            (\<forall>v v'. semver_NewVersion c (Version d) = Some v \<longrightarrow>
               semver_NewVersion c (Version d') = Some v' \<longrightarrow> \<not> semver_GreaterThan c v' v))) \<and>
      (\<forall>d \<in> {} \<union> set chartVersions.
         (AppVersion d \<noteq> [] \<and> semver_NewVersion c (Version d) \<noteq> None)
         \<longrightarrow> AppVersion d \<in> dom (map_of r))"
  proof (rule appVersionsLoop_inv)
    show "\<And>x y z. semver_GreaterThan c x y \<Longrightarrow> semver_GreaterThan c y z \<Longrightarrow> semver_GreaterThan c x z"
      by (rule tr)
    show "\<And>x. \<not> semver_GreaterThan c x x" by (rule irr)
  qed simp_all
  then obtain r where r: "appVersionsLoop c chartVersions [] = Inr r"
    and dr: "distinct (map fst r)"
    and i0: "\<forall>a d. map_of r a = Some d \<longrightarrow> AppVersion d = a \<and>
         (AppVersion d \<noteq> [] \<and> semver_NewVersion c (Version d) \<noteq> None) \<and>
         d \<in> {} \<union> set chartVersions \<and>
         (\<forall>d' \<in> {} \<union> set chartVersions. AppVersion d' = AppVersion d \<longrightarrow>
            (\<forall>v v'. semver_NewVersion c (Version d) = Some v \<longrightarrow>
               semver_NewVersion c (Version d') = Some v' \<longrightarrow> \<not> semver_GreaterThan c v' v))"
    and j0: "\<forall>d \<in> {} \<union> set chartVersions.
         (AppVersion d \<noteq> [] \<and> semver_NewVersion c (Version d) \<noteq> None)
         \<longrightarrow> AppVersion d \<in> dom (map_of r)"
    by blast
  have i: "AppVersion d = a \<and>
              (AppVersion d \<noteq> [] \<and> semver_NewVersion c (Version d) \<noteq> None) \<and> d \<in> set chartVersions \<and>
              (\<forall>d' \<in> set chartVersions. AppVersion d' = AppVersion d \<longrightarrow>
                 (\<forall>v v'. semver_NewVersion c (Version d) = Some v \<longrightarrow>
                    semver_NewVersion c (Version d') = Some v' \<longrightarrow> \<not> semver_GreaterThan c v' v))"
    if "map_of r a = Some d" for a d
    using i0[rule_format, OF that] by blast
  have j: "AppVersion d \<in> dom (map_of r)"
    if "d \<in> set chartVersions" "AppVersion d \<noteq> [] \<and> semver_NewVersion c (Version d) \<noteq> None" for d
    using j0[rule_format, of d] that by blast
  obtain services where s: "ListServices c = Inr services"
    and sl: "servicesLoop c charts [] = Inr services"
    using servicesLoop_total[of c charts "[]"] charts(1) by (auto simp: ListServices_def)
  have keys: "fst ` set r =
        {AppVersion d |d. d \<in> set chartVersions \<and> AppVersion d \<noteq> [] \<and>
                          semver_NewVersion c (Version d) \<noteq> None}"
  proof (intro equalityI subsetI)
    fix a assume "a \<in> fst ` set r"
    then obtain d where "(a, d) \<in> set r" by auto
    then have "map_of r a = Some d" using dr by simp
    from i[OF this] show "a \<in> {AppVersion d |d. d \<in> set chartVersions \<and> AppVersion d \<noteq> [] \<and>
                          semver_NewVersion c (Version d) \<noteq> None}" by blast
  next
    fix a assume "a \<in> {AppVersion d |d. d \<in> set chartVersions \<and> AppVersion d \<noteq> [] \<and>
                          semver_NewVersion c (Version d) \<noteq> None}"
    then obtain d where "a = AppVersion d" "d \<in> set chartVersions"
      "AppVersion d \<noteq> [] \<and> semver_NewVersion c (Version d) \<noteq> None" by blast
    with j[of d] show "a \<in> fst ` set r" by (simp add: dom_map_of_conv_image_fst)
  qed
  have best: "\<forall>(a, d) \<in> set r.
          d \<in> set chartVersions \<and> AppVersion d = a \<and>
          (\<exists>v. semver_NewVersion c (Version d) = Some v \<and>
               (\<forall>d' \<in> set chartVersions. \<forall>v'.
                   AppVersion d' = a \<and> semver_NewVersion c (Version d') = Some v'
                   \<longrightarrow> \<not> semver_GreaterThan c v' v))"
  proof (clarify)
    fix a d assume "(a, d) \<in> set r"
    then have m: "map_of r a = Some d" using dr by simp
    from i[OF m] obtain v where v: "semver_NewVersion c (Version d) = Some v" by auto
    from i[OF m] v
    show "d \<in> set chartVersions \<and> AppVersion d = a \<and>
          (\<exists>v. semver_NewVersion c (Version d) = Some v \<and>
               (\<forall>d' \<in> set chartVersions. \<forall>v'.
                   AppVersion d' = a \<and> semver_NewVersion c (Version d') = Some v'
                   \<longrightarrow> \<not> semver_GreaterThan c v' v))"
      by auto
  qed
  have plans: "svc_Plans svc = map (\<lambda>(a, d). makePlan chart d) r"
    if "svc \<in> set services" "svc_ID svc = chart" for svc
  proof -
    from servicesLoop_sound[OF sl that(1)]
    obtain chart' cvs' r' where c': "(chart', cvs') \<in> set charts"
      "appVersionsLoop c cvs' [] = Inr r'"
      "svc = (newService chart' (getTagIntersection cvs'))\<lparr>svc_Plans := map (\<lambda>(a, d). makePlan chart' d) r'\<rparr>"
      by auto
    then have "chart' = chart" using that(2) by (simp add: newService_def)
    moreover from this have "cvs' = chartVersions"
      using c'(1) chart charts(2) by (metis map_of_is_SomeI option.inject)
    ultimately show ?thesis using c'(2,3) r by simp
  qed
  have present: "\<exists>svc \<in> set services. svc_ID svc = chart" if "r \<noteq> []"
    using servicesLoop_complete[OF sl chart listed r that]
    by (rule bexI[rotated]) (simp add: newService_def)
  show ?thesis
  proof (intro exI conjI)
    show "ListServices c = Inr services" by (rule s)
    show "appVersionsLoop c chartVersions [] = Inr r" by (rule r)
    show "distinct (map fst r)" by (rule dr)
    show "fst ` set r =
        {AppVersion d |d. d \<in> set chartVersions \<and> AppVersion d \<noteq> [] \<and>
                          semver_NewVersion c (Version d) \<noteq> None}" by (rule keys)
    show "\<forall>(a, d) \<in> set r.
          d \<in> set chartVersions \<and> AppVersion d = a \<and>
          (\<exists>v. semver_NewVersion c (Version d) = Some v \<and>
               (\<forall>d' \<in> set chartVersions. \<forall>v'.
                   AppVersion d' = a \<and> semver_NewVersion c (Version d') = Some v'
                   \<longrightarrow> \<not> semver_GreaterThan c v' v))" by (rule best)
    show "\<forall>svc \<in> set services. svc_ID svc = chart \<longrightarrow>
          svc_Plans svc = map (\<lambda>(a, d). makePlan chart d) r"
      using plans by blast
    show "r \<noteq> [] \<longrightarrow> (\<exists>svc \<in> set services. svc_ID svc = chart)"
      using present by blast
  qed
qed

theorem ListServices_one_plan_per_appVersion_witness:
  "\<exists>services.
     ListServices exampleClient = Inr services \<and>
     (\<exists>svc \<in> set services. svc_ID svc = ''pg'') \<and>
     (\<forall>svc \<in> set services. svc_ID svc = ''pg'' \<longrightarrow>
        svc_Plans svc =
          [\<lparr>plan_ID = ''pg-9-6'', plan_Name = ''9-6'',
            plan_Description = ''pg 9.6, second packaging'', plan_Free = Some True\<rparr>,
           \<lparr>plan_ID = ''pg-10-1'', plan_Name = ''10-1'',
            plan_Description = ''pg 10.1'', plan_Free = Some True\<rparr>])"
proof -
  have h1: "helm_ListCharts exampleClient = Inr [(''pg'', [pg_1_0_0, pg_1_1_0, pg_2_0_0])]"
    by (simp add: exampleClient_def)
  have h2: "distinct (map fst [(''pg'', [pg_1_0_0, pg_1_1_0, pg_2_0_0])])" by simp
  have h3: "(''pg'', [pg_1_0_0, pg_1_1_0, pg_2_0_0]) \<in> set [(''pg'', [pg_1_0_0, pg_1_1_0, pg_2_0_0])]"
    by simp
  have h4: "\<not> (providers exampleClient ''pg'' = None \<and> serviceCatalogEnabledOnly exampleClient)"
    by (simp add: exampleClient_def)
  have sg: "semver_GreaterThan exampleClient = plainGreaterThan"
    by (simp add: exampleClient_def)
  have t: "\<forall>x y z. semver_GreaterThan exampleClient x y \<and> semver_GreaterThan exampleClient y z
                      \<longrightarrow> semver_GreaterThan exampleClient x z"
    unfolding sg by (rule plainGreaterThan_trans)
  have i: "\<forall>x. \<not> semver_GreaterThan exampleClient x x"
    unfolding sg by (rule plainGreaterThan_irrefl)
  from ListServices_one_plan_per_appVersion[OF t i h1 h2 h3 h4]
  obtain services retained where
    s: "ListServices exampleClient = Inr services"
    and r: "appVersionsLoop exampleClient [pg_1_0_0, pg_1_1_0, pg_2_0_0] [] = Inr retained"
    and p: "\<forall>svc \<in> set services. svc_ID svc = ''pg'' \<longrightarrow>
          svc_Plans svc = map (\<lambda>(a, d). makePlan ''pg'' d) retained"
    and e: "retained \<noteq> [] \<longrightarrow> (\<exists>svc \<in> set services. svc_ID svc = ''pg'')"
    by (elim exE conjE)
  have ret: "retained = [(''9.6'', pg_1_1_0), (''10.1'', pg_2_0_0)]"
    using r unfolding example_retained by simp
  show ?thesis
  proof (intro exI conjI)
    show "ListServices exampleClient = Inr services" by (rule s)
    show "\<exists>svc \<in> set services. svc_ID svc = ''pg''" using e ret by simp
    show "\<forall>svc \<in> set services. svc_ID svc = ''pg'' \<longrightarrow>
        svc_Plans svc =
          [\<lparr>plan_ID = ''pg-9-6'', plan_Name = ''9-6'',
            plan_Description = ''pg 9.6, second packaging'', plan_Free = Some True\<rparr>,
           \<lparr>plan_ID = ''pg-10-1'', plan_Name = ''10-1'',
            plan_Description = ''pg 10.1'', plan_Free = Some True\<rparr>]"
      using p unfolding ret by (simp add: example_plans)
  qed
qed

text \<open>
  Claim C9. Every plan of every listed service is built from a retained descriptor:
  its ID is the lower-cased \<open>name@appVersion\<close> with every character outside
  \<open>[a-z0-9]\<close> replaced by \<open>-\<close>, its name is the \<open>appVersion\<close> with the same
  replacement (and no lower-casing), its description is the descriptor's, and it is
  free of charge. Names and versions are ASCII.
\<close>

theorem ListServices_plan_fields:
  assumes "ListServices c = Inr services" and "svc \<in> set services"
    and "helm_ListCharts c = Inr charts"
    and "list_all (\<lambda>(chart, chartVersions).
            ascii chart \<and> list_all (\<lambda>d. ascii (AppVersion d)) chartVersions) charts"
  shows "\<exists>chartVersions retained.
      (svc_ID svc, chartVersions) \<in> set charts \<and>
      appVersionsLoop c chartVersions [] = Inr retained \<and>
      length (svc_Plans svc) = length retained \<and>
      (\<forall>i < length retained.
         plan_ID (svc_Plans svc ! i) =
           map (\<lambda>ch. if ch \<in> set ''abcdefghijklmnopqrstuvwxyz0123456789'' then ch else CHR ''-'')
             (ToLower (svc_ID svc @ ''@'' @ AppVersion (snd (retained ! i)))) \<and>
         plan_Name (svc_Plans svc ! i) =
           map (\<lambda>ch. if ch \<in> set ''abcdefghijklmnopqrstuvwxyz0123456789'' then ch else CHR ''-'')
             (AppVersion (snd (retained ! i))) \<and>
         plan_Description (svc_Plans svc ! i) = Description (snd (retained ! i)) \<and>
         plan_Free (svc_Plans svc ! i) = Some True)"
proof -
  have sl: "servicesLoop c charts [] = Inr services"
    using assms(1,3) by (simp add: ListServices_def)
  from servicesLoop_sound[OF sl assms(2)]
  obtain chart cvs r where c: "(chart, cvs) \<in> set charts"
    "appVersionsLoop c cvs [] = Inr r"
    "svc = (newService chart (getTagIntersection cvs))\<lparr>svc_Plans := map (\<lambda>(a, d). makePlan chart d) r\<rparr>"
    by auto
  have id: "svc_ID svc = chart" and pl: "svc_Plans svc = map (\<lambda>(a, d). makePlan chart d) r"
    using c(3) by (simp_all add: newService_def)
  have cl: "cleaner_ReplaceAllString s =
      map (\<lambda>ch. if ch \<in> set ''abcdefghijklmnopqrstuvwxyz0123456789'' then ch else CHR ''-'') s" for s
    unfolding cleaner_ReplaceAllString_def cleanChar_def lowerAlnum_iff ..
  have "\<forall>i < length r.
         plan_ID (svc_Plans svc ! i) =
           map (\<lambda>ch. if ch \<in> set ''abcdefghijklmnopqrstuvwxyz0123456789'' then ch else CHR ''-'')
             (ToLower (svc_ID svc @ ''@'' @ AppVersion (snd (r ! i)))) \<and>
         plan_Name (svc_Plans svc ! i) =
           map (\<lambda>ch. if ch \<in> set ''abcdefghijklmnopqrstuvwxyz0123456789'' then ch else CHR ''-'')
             (AppVersion (snd (r ! i))) \<and>
         plan_Description (svc_Plans svc ! i) = Description (snd (r ! i)) \<and>
         plan_Free (svc_Plans svc ! i) = Some True"
    unfolding id pl by (simp add: makePlan_def Let_def cl split_beta del: set_simps list.set)
  then show ?thesis using c(1,2) id pl by auto
qed

theorem ListServices_plan_fields_witness:
  "ListServices mixedCaseClient = Inr [redisEntry] \<and>
   plan_ID (svc_Plans redisEntry ! 0) = ''redis-5-0-rc1'' \<and>
   plan_Name (svc_Plans redisEntry ! 0) = ''5-0---1'' \<and>
   (\<exists>chartVersions retained.
      (svc_ID redisEntry, chartVersions) \<in> set [(''Redis'', [redis_rc])] \<and>
      appVersionsLoop mixedCaseClient chartVersions [] = Inr retained \<and>
      length (svc_Plans redisEntry) = length retained \<and>
      (\<forall>i < length retained.
         plan_ID (svc_Plans redisEntry ! i) =
           map (\<lambda>ch. if ch \<in> set ''abcdefghijklmnopqrstuvwxyz0123456789'' then ch else CHR ''-'')
             (ToLower (svc_ID redisEntry @ ''@'' @ AppVersion (snd (retained ! i)))) \<and>
         plan_Name (svc_Plans redisEntry ! i) =
           map (\<lambda>ch. if ch \<in> set ''abcdefghijklmnopqrstuvwxyz0123456789'' then ch else CHR ''-'')
             (AppVersion (snd (retained ! i))) \<and>
         plan_Description (svc_Plans redisEntry ! i) = Description (snd (retained ! i)) \<and>
         plan_Free (svc_Plans redisEntry ! i) = Some True))"
proof -
  have h2: "redisEntry \<in> set [redisEntry]" by simp
  have h3: "helm_ListCharts mixedCaseClient = Inr [(''Redis'', [redis_rc])]"
    by (simp add: mixedCaseClient_def)
  have h4: "list_all (\<lambda>(chart, chartVersions).
            ascii chart \<and> list_all (\<lambda>d. ascii (AppVersion d)) chartVersions)
          [(''Redis'', [redis_rc])]"
    by (simp add: ascii_def redis_rc_def)
  note T = ListServices_plan_fields[OF mixedCase_entry h2 h3 h4]
  have f: "plan_ID (svc_Plans redisEntry ! 0) = ''redis-5-0-rc1''"
    "plan_Name (svc_Plans redisEntry ! 0) = ''5-0---1''"
    by (simp_all add: redisEntry_def)
  show ?thesis using mixedCase_entry f T by (intro conjI)
qed

section \<open>Tags in the listing\<close>

lemma tags_services: "ListServices tagsClient = Inr [abEntry, xyEntry]"
  unfolding abEntry_def xyEntry_def by code_simp

text \<open>
  Claim C8. For every package name, the tags of its catalog entry in the listing are
  the intersection of the keyword sets of all version descriptors of that package
  (those skipped for the plans included): keyword sets \<open>{a,b}\<close> and \<open>{b,c}\<close> give
  \<open>{b}\<close>, and the keywords of a package with a single descriptor pass through
  unchanged. A listed package has at least one descriptor; without descriptors the
  intersection function returns no tags. The names of the packages are the keys of a
  Go map.
\<close>

theorem catalog_tags_are_intersection:
  assumes "ListServices c = Inr services"
    and "helm_ListCharts c = Inr charts"
    and "distinct (map fst charts)"
    and "(chart, chartVersions) \<in> set charts"
    and "svc \<in> set services"
    and "svc_ID svc = chart"
  shows "svc_Tags svc = getTagIntersection chartVersions \<and>
         chartVersions \<noteq> [] \<and>
         set (svc_Tags svc) = (\<Inter>d \<in> set chartVersions. set (Keywords d)) \<and>
         (\<forall>d. chartVersions = [d] \<longrightarrow> svc_Tags svc = Keywords d) \<and>
         getTagIntersection [] = []"
proof -
  have sl: "servicesLoop c charts [] = Inr services"
    using assms(1,2) by (simp add: ListServices_def)
  from servicesLoop_sound[OF sl assms(5)]
  obtain chart' cvs r where c: "(chart', cvs) \<in> set charts"
    "appVersionsLoop c cvs [] = Inr r" "r \<noteq> []"
    "svc = (newService chart' (getTagIntersection cvs))\<lparr>svc_Plans := map (\<lambda>(a, d). makePlan chart' d) r\<rparr>"
    by auto
  have "chart' = chart" using c(4) assms(6) by (simp add: newService_def)
  then have cv: "cvs = chartVersions"
    using c(1) assms(3,4) by (metis map_of_is_SomeI option.inject)
  have tags: "svc_Tags svc = getTagIntersection chartVersions"
    using c(4) cv by (simp add: newService_def)
  have ne: "chartVersions \<noteq> []"
  proof
    assume "chartVersions = []"
    then have "r = []" using c(2) cv by simp
    with c(3) show False by simp
  qed
  then obtain d ds where dd: "chartVersions = d # ds" by (cases chartVersions) auto
  have inter: "set (svc_Tags svc) = (\<Inter>d \<in> set chartVersions. set (Keywords d))"
    unfolding tags dd using getTagIntersection_cases[of d ds] by blast
  have single: "\<forall>d. chartVersions = [d] \<longrightarrow> svc_Tags svc = Keywords d"
    unfolding tags using getTagIntersection_cases by blast
  have empty: "getTagIntersection [] = []" by (simp add: getTagIntersection_def)
  show ?thesis using tags ne inter single empty by (intro conjI)
qed

theorem catalog_tags_are_intersection_witness:
  "ListServices tagsClient = Inr [abEntry, xyEntry] \<and>
   svc_Tags abEntry = getTagIntersection [withKeywords [''a'', ''b''], withKeywords [''b'', ''c'']] \<and>
   set (svc_Tags abEntry) = {''b''} \<and>
   svc_Tags xyEntry = Keywords (withKeywords [''x'', ''y'']) \<and>
   svc_Tags xyEntry = [''x'', ''y'']"
proof -
  let ?charts = "[(''ab'', [withKeywords [''a'', ''b''], withKeywords [''b'', ''c'']]),
                  (''xy'', [withKeywords [''x'', ''y'']])]"
  have h2: "helm_ListCharts tagsClient = Inr ?charts" by (simp add: tagsClient_def)
  have h3: "distinct (map fst ?charts)" by simp
  have ab: "(''ab'', [withKeywords [''a'', ''b''], withKeywords [''b'', ''c'']]) \<in> set ?charts"
    by simp
  have xy: "(''xy'', [withKeywords [''x'', ''y'']]) \<in> set ?charts" by simp
  have m1: "abEntry \<in> set [abEntry, xyEntry]" and m2: "xyEntry \<in> set [abEntry, xyEntry]"
    by simp_all
  have i1: "svc_ID abEntry = ''ab''" and i2: "svc_ID xyEntry = ''xy''"
    by (simp_all add: abEntry_def xyEntry_def)
  note A = catalog_tags_are_intersection[OF tags_services h2 h3 ab m1 i1]
  note X = catalog_tags_are_intersection[OF tags_services h2 h3 xy m2 i2]
  have a1: "svc_Tags abEntry
      = getTagIntersection [withKeywords [''a'', ''b''], withKeywords [''b'', ''c'']]"
    using A by (elim conjE)
  have a2: "set (svc_Tags abEntry) = {''b''}"
    using A[THEN conjunct2, THEN conjunct2, THEN conjunct1] by (simp add: withKeywords_def)
  have x1: "svc_Tags xyEntry = Keywords (withKeywords [''x'', ''y''])"
    using X[THEN conjunct2, THEN conjunct2, THEN conjunct2, THEN conjunct1] by blast
  have x2: "svc_Tags xyEntry = [''x'', ''y'']"
    using x1 by (simp add: withKeywords_def)
  show ?thesis using tags_services a1 a2 x1 x2 by (intro conjI)
qed

end
